theory Spec2Isabelle
  imports Main
begin

section \<open>Objects, values and the heap\<close>

text \<open>
  The module \<^verbatim>\<open>stem/control.py\<close> defines one class, \<^verbatim>\<open>BaseController\<close>, whose
  methods read and write attributes of heap objects and call methods of a socket object
  whose class lives in \<^verbatim>\<open>stem.socket\<close>. The model is a store of objects addressed by
  their index, every object carrying its own attribute dictionary, so that aliasing (two
  controllers over one socket) is visible.
\<close>

type_synonym addr = nat

datatype val =
    VNone
  | VBool bool
  | VInt int
  | VStr string
  | VRef addr
  | VBound addr string
  | VFunction string

text \<open>
  \<^verbatim>\<open>VBound a n\<close> is the method \<open>n\<close> of this class bound to the instance at \<open>a\<close>;
  \<^verbatim>\<open>VFunction n\<close> is the plain function \<open>n\<close> of this class.
\<close>

text \<open>
  An object is an instance of a named class, or the function object that line 71
  (\<^verbatim>\<open>def provide_self(): return self\<close>) creates, which closes over \<^verbatim>\<open>self\<close>.
\<close>

datatype kind =
    Instance string
  | ProvideSelf addr

record obj =
  kind :: kind
  attrs :: "string \<rightharpoonup> val"

type_synonym heap = "obj list"

text \<open>
  \<^verbatim>\<open>InvalidRef\<close> is not a Python exception: a Python reference always denotes a live
  object. The model answers with it when an address lies outside the store, so that no
  result depends on a list read out of range.
\<close>

datatype exn =
    AttributeError string
  | SocketError string
  | Foreign string
  | InvalidRef addr

text \<open>
  Everything the module does to the outside is a call into \<^verbatim>\<open>stem.socket\<close>: the
  instantiation of one of its classes, or a method call on an object. The behaviour of
  such a call is a parameter \<open>ext\<close> of the model: any function from the call and the
  store to an outcome (a value or a raised exception) and a new store.
\<close>

datatype call =
    Construct string "val list"
  | Method addr string "val list"

type_synonym ext = "call \<Rightarrow> heap \<Rightarrow> (exn + val) \<times> heap"

text \<open>
  The state threaded through the code is the store together with a log of what the code
  of this module did: the external calls it made and the attributes it assigned, in order.
\<close>

datatype event =
    is_Ext: Ext call
  | Write addr string val

record state =
  heap :: heap
  log :: "event list"

definition alloc :: "kind \<Rightarrow> state \<Rightarrow> addr \<times> state" where
  "alloc k st =
     (length (heap st), st\<lparr>heap := heap st @ [\<lparr>kind = k, attrs = Map.empty\<rparr>]\<rparr>)"

text \<open>The names bound in the body of \<^verbatim>\<open>class BaseController\<close> (lines 30 to 99).\<close>

definition BaseController_names :: "string list" where
  "BaseController_names =
     [''from_port'', ''from_socket_file'', ''__init__'', ''send'', ''recv'', ''is_alive'',
      ''connect'', ''close'', ''get_socket'', ''add_status_listener'',
      ''remove_status_listener'', ''_make_socket'']"

text \<open>
  Modelled from the spec: the class \<^verbatim>\<open>stem.socket.ControlSocket\<close>, the base class of
  \<^verbatim>\<open>BaseController\<close>, is not part of this module. The names it binds are the operations
  the specification lists for the Control Socket (section 4.1).
\<close>

definition ControlSocket_names :: "string list" where
  "ControlSocket_names =
     [''connect'', ''send'', ''recv'', ''is_alive'', ''close'', ''add_status_listener'',
      ''remove_status_listener'']"

text \<open>
  Lines 65 and 66 rebind \<^verbatim>\<open>from_port\<close> and \<^verbatim>\<open>from_socket_file\<close> as static methods:
  read through an instance they are plain functions, not bound methods.
\<close>

definition static_names :: "string list" where
  "static_names = [''from_port'', ''from_socket_file'']"

fun class_names :: "kind \<Rightarrow> string list" where
  "class_names (Instance c) =
     (if c = ''BaseController'' then BaseController_names @ ControlSocket_names else [])"
| "class_names (ProvideSelf _) = []"

text \<open>
  Attribute read \<^verbatim>\<open>o.n\<close>: the instance dictionary first, then the names of the class;
  a miss raises \<^verbatim>\<open>AttributeError\<close>. A name found in the class is a bound method, or
  the plain function when the class binds it as a static method. Of an object of another
  class only the instance dictionary is known here.
\<close>

fun getattr :: "val \<Rightarrow> string \<Rightarrow> state \<Rightarrow> exn + val" where
  "getattr (VRef a) n st =
     (if a < length (heap st) then
        (case attrs (heap st ! a) n of
           Some v \<Rightarrow> Inr v
         | None \<Rightarrow>
             if n \<in> set (class_names (kind (heap st ! a))) then
               (if n \<in> set static_names then Inr (VFunction n) else Inr (VBound a n))
             else Inl (AttributeError n))
      else Inl (InvalidRef a))"
| "getattr _ n st = Inl (AttributeError n)"

text \<open>
  Attribute assignment \<^verbatim>\<open>o.n = v\<close>: stored in the instance dictionary of a heap object;
  \<^verbatim>\<open>None\<close>, booleans, integers, strings and bound methods accept no attribute. The
  store has no place for the attributes of a plain function of the class, so the model
  refuses that assignment too.
\<close>

fun setattr :: "val \<Rightarrow> string \<Rightarrow> val \<Rightarrow> state \<Rightarrow> (exn + val) \<times> state" where
  "setattr (VRef a) n v st =
     (if a < length (heap st) then
        (Inr VNone,
         \<lparr>heap = (heap st)[a := (heap st ! a)\<lparr>attrs := (attrs (heap st ! a))(n \<mapsto> v)\<rparr>],
          log = log st @ [Write a n v]\<rparr>)
      else (Inl (InvalidRef a), st))"
| "setattr _ n v st = (Inl (AttributeError n), st)"

type_synonym result = "(exn + val) \<times> state"

text \<open>
  A method call \<^verbatim>\<open>o.n(args)\<close> whose code is outside this module: \<open>ext\<close> answers it, and
  the call is logged.
\<close>

definition external :: "ext \<Rightarrow> addr \<Rightarrow> string \<Rightarrow> val list \<Rightarrow> state \<Rightarrow> result" where
  "external ext a n args st =
     (case ext (Method a n args) (heap st) of
        (r, h) \<Rightarrow> (r, \<lparr>heap = h, log = log st @ [Ext (Method a n args)]\<rparr>))"

text \<open>Instantiation \<^verbatim>\<open>stem.socket.C(args)\<close> of a class of \<^verbatim>\<open>stem.socket\<close>.\<close>

definition construct :: "ext \<Rightarrow> string \<Rightarrow> val list \<Rightarrow> state \<Rightarrow> (exn + val) \<times> state" where
  "construct ext c args st =
     (case ext (Construct c args) (heap st) of
        (r, h) \<Rightarrow> (r, \<lparr>heap = h, log = log st @ [Ext (Construct c args)]\<rparr>))"

section \<open>BaseController\<close>

text \<open>Line 71: the body of the closure, \<^verbatim>\<open>return self\<close>.\<close>

definition provide_self :: "addr \<Rightarrow> val" where
  "provide_self self = VRef self"

text \<open>
  Lines 68 to 72:
  \<^verbatim>\<open>
  def __init__(self, control_socket):
    self._socket = control_socket
    def provide_self(): return self
    self._socket._get_self = provide_self
  \<close>
\<close>

definition init :: "addr \<Rightarrow> val \<Rightarrow> state \<Rightarrow> (exn + val) \<times> state" where
  "init self control_socket st =
     (case setattr (VRef self) ''_socket'' control_socket st of
        (Inl e, st1) \<Rightarrow> (Inl e, st1)
      | (Inr _, st1) \<Rightarrow>
          (case alloc (ProvideSelf self) st1 of
             (f, st2) \<Rightarrow>
               (case getattr (VRef self) ''_socket'' st2 of
                  Inl e \<Rightarrow> (Inl e, st2)
                | Inr s \<Rightarrow>
                    (case setattr s ''_get_self'' (VRef f) st2 of
                       (Inl e, st3) \<Rightarrow> (Inl e, st3)
                     | (Inr _, st3) \<Rightarrow> (Inr VNone, st3)))))"

text \<open>
  The class call \<^verbatim>\<open>BaseController(control_socket)\<close>: a new instance is allocated,
  \<^verbatim>\<open>__init__\<close> runs on it, and the instance is the value of the call.
\<close>

definition BaseController :: "val \<Rightarrow> state \<Rightarrow> (exn + val) \<times> state" where
  "BaseController control_socket st =
     (case alloc (Instance ''BaseController'') st of
        (self, st1) \<Rightarrow>
          (case init self control_socket st1 of
             (Inl e, st2) \<Rightarrow> (Inl e, st2)
           | (Inr _, st2) \<Rightarrow> (Inr (VRef self), st2)))"

text \<open>
  Lines 30 to 46. An omitted argument is \<open>None\<close> and takes the default of the signature.
  \<^verbatim>\<open>
  def from_port(control_addr = "127.0.0.1", control_port = 9051):
    control_port = stem.socket.ControlPort(control_addr, control_port)
    return BaseController(control_port)
  \<close>
\<close>

definition from_port :: "ext \<Rightarrow> val option \<Rightarrow> val option \<Rightarrow> state \<Rightarrow> (exn + val) \<times> state" where
  "from_port ext control_addr control_port st =
     (case construct ext ''stem.socket.ControlPort''
             [case control_addr of None \<Rightarrow> VStr ''127.0.0.1'' | Some a \<Rightarrow> a,
              case control_port of None \<Rightarrow> VInt 9051 | Some p \<Rightarrow> p] st of
        (Inl e, st1) \<Rightarrow> (Inl e, st1)
      | (Inr control_port, st1) \<Rightarrow> BaseController control_port st1)"

text \<open>
  Lines 48 to 63.
  \<^verbatim>\<open>
  def from_socket_file(socket_path = "/var/run/tor/control"):
    control_socket = stem.socket.ControlSocketFile(socket_path)
    return BaseController(control_socket)
  \<close>
\<close>

definition from_socket_file :: "ext \<Rightarrow> val option \<Rightarrow> state \<Rightarrow> (exn + val) \<times> state" where
  "from_socket_file ext socket_path st =
     (case construct ext ''stem.socket.ControlSocketFile''
             [case socket_path of None \<Rightarrow> VStr ''/var/run/tor/control'' | Some p \<Rightarrow> p] st of
        (Inl e, st1) \<Rightarrow> (Inl e, st1)
      | (Inr control_socket, st1) \<Rightarrow> BaseController control_socket st1)"

text \<open>
  A method whose body is the statement \<^verbatim>\<open>self._socket.n(args)\<close> evaluates the call and
  returns \<^verbatim>\<open>None\<close>; one whose body is \<^verbatim>\<open>return self._socket.n(args)\<close> returns the
  value of the call. An exception raised on the way propagates in both.
\<close>

definition statement :: "(exn + val) \<times> state \<Rightarrow> (exn + val) \<times> state" where
  "statement r = (case r of (Inl e, st) \<Rightarrow> (Inl e, st) | (Inr _, st) \<Rightarrow> (Inr VNone, st))"

text \<open>
  The methods below call a method of the value they find in \<^verbatim>\<open>self._socket\<close>. How a
  method call \<^verbatim>\<open>o.n(args)\<close> is evaluated depends on the receiver, which may be a
  controller again; the methods take that evaluation as their first argument, and
  \<open>invoke\<close> below closes the loop.
\<close>

type_synonym caller = "val \<Rightarrow> string \<Rightarrow> val list \<Rightarrow> state \<Rightarrow> result"

text \<open>Lines 74 and 75: \<^verbatim>\<open>def send(self, message, raw = False): self._socket.send(message, raw)\<close>.\<close>

definition send :: "caller \<Rightarrow> addr \<Rightarrow> val \<Rightarrow> val option \<Rightarrow> state \<Rightarrow> result" where
  "send call self message raw st =
     (case getattr (VRef self) ''_socket'' st of
        Inl e \<Rightarrow> (Inl e, st)
      | Inr s \<Rightarrow>
          statement (call s ''send''
            [message, case raw of None \<Rightarrow> VBool False | Some r \<Rightarrow> r] st))"

text \<open>Lines 77 and 78: \<^verbatim>\<open>def recv(self): return self._socket.recv()\<close>.\<close>

definition recv :: "caller \<Rightarrow> addr \<Rightarrow> state \<Rightarrow> result" where
  "recv call self st =
     (case getattr (VRef self) ''_socket'' st of
        Inl e \<Rightarrow> (Inl e, st)
      | Inr s \<Rightarrow> call s ''recv'' [] st)"

text \<open>Lines 80 and 81: \<^verbatim>\<open>def is_alive(self): return self._socket.is_alive()\<close>.\<close>

definition is_alive :: "caller \<Rightarrow> addr \<Rightarrow> state \<Rightarrow> result" where
  "is_alive call self st =
     (case getattr (VRef self) ''_socket'' st of
        Inl e \<Rightarrow> (Inl e, st)
      | Inr s \<Rightarrow> call s ''is_alive'' [] st)"

text \<open>Lines 83 and 84: \<^verbatim>\<open>def connect(self): self._socket.connect()\<close>.\<close>

definition connect :: "caller \<Rightarrow> addr \<Rightarrow> state \<Rightarrow> result" where
  "connect call self st =
     (case getattr (VRef self) ''_socket'' st of
        Inl e \<Rightarrow> (Inl e, st)
      | Inr s \<Rightarrow> statement (call s ''connect'' [] st))"

text \<open>Lines 86 and 87: \<^verbatim>\<open>def close(self): self._socket.close()\<close>.\<close>

definition close :: "caller \<Rightarrow> addr \<Rightarrow> state \<Rightarrow> result" where
  "close call self st =
     (case getattr (VRef self) ''_socket'' st of
        Inl e \<Rightarrow> (Inl e, st)
      | Inr s \<Rightarrow> statement (call s ''close'' [] st))"

text \<open>Lines 89 and 90: \<^verbatim>\<open>def get_socket(self): return self._socket\<close>.\<close>

definition get_socket :: "addr \<Rightarrow> state \<Rightarrow> result" where
  "get_socket self st =
     (case getattr (VRef self) ''_socket'' st of
        Inl e \<Rightarrow> (Inl e, st)
      | Inr s \<Rightarrow> (Inr s, st))"

text \<open>
  Lines 92 and 93:
  \<^verbatim>\<open>def add_status_listener(self, callback, spawn = True):
    self._socket.add_status_listener(callback, spawn)\<close>.
\<close>

definition add_status_listener ::
  "caller \<Rightarrow> addr \<Rightarrow> val \<Rightarrow> val option \<Rightarrow> state \<Rightarrow> result" where
  "add_status_listener call self callback spawn st =
     (case getattr (VRef self) ''_socket'' st of
        Inl e \<Rightarrow> (Inl e, st)
      | Inr s \<Rightarrow>
          statement (call s ''add_status_listener''
            [callback, case spawn of None \<Rightarrow> VBool True | Some b \<Rightarrow> b] st))"

text \<open>
  Lines 95 and 96:
  \<^verbatim>\<open>def remove_status_listener(self, callback):
    self._socket.remove_status_listener(callback)\<close>.
\<close>

definition remove_status_listener :: "caller \<Rightarrow> addr \<Rightarrow> val \<Rightarrow> state \<Rightarrow> result" where
  "remove_status_listener call self callback st =
     (case getattr (VRef self) ''_socket'' st of
        Inl e \<Rightarrow> (Inl e, st)
      | Inr s \<Rightarrow> statement (call s ''remove_status_listener'' [callback] st))"

text \<open>
  Lines 98 and 99: \<^verbatim>\<open>def _make_socket(self): self._control_socket._make_socket()\<close>.
  The attribute read is \<^verbatim>\<open>_control_socket\<close>, as the source has it.
\<close>

definition make_socket :: "caller \<Rightarrow> addr \<Rightarrow> state \<Rightarrow> result" where
  "make_socket call self st =
     (case getattr (VRef self) ''_control_socket'' st of
        Inl e \<Rightarrow> (Inl e, st)
      | Inr s \<Rightarrow> statement (call s ''_make_socket'' [] st))"

section \<open>Method calls\<close>

text \<open>
  The class body as a table: the function bound to the name \<open>n\<close>, applied to \<open>self\<close> and
  the positional arguments. A wrong number of arguments is a \<^verbatim>\<open>TypeError\<close>; the two
  static methods do not take \<open>self\<close>.
\<close>

definition BaseController_method ::
  "caller \<Rightarrow> ext \<Rightarrow> addr \<Rightarrow> string \<Rightarrow> val list \<Rightarrow> state \<Rightarrow> result" where
  "BaseController_method call ext self n args st =
     (if n = ''from_port'' then
        (case args of
           [] \<Rightarrow> from_port ext None None st
         | [a] \<Rightarrow> from_port ext (Some a) None st
         | [a, p] \<Rightarrow> from_port ext (Some a) (Some p) st
         | _ \<Rightarrow> (Inl (Foreign ''TypeError''), st))
      else if n = ''from_socket_file'' then
        (case args of
           [] \<Rightarrow> from_socket_file ext None st
         | [p] \<Rightarrow> from_socket_file ext (Some p) st
         | _ \<Rightarrow> (Inl (Foreign ''TypeError''), st))
      else if n = ''__init__'' then
        (case args of
           [control_socket] \<Rightarrow> init self control_socket st
         | _ \<Rightarrow> (Inl (Foreign ''TypeError''), st))
      else if n = ''send'' then
        (case args of
           [message] \<Rightarrow> send call self message None st
         | [message, raw] \<Rightarrow> send call self message (Some raw) st
         | _ \<Rightarrow> (Inl (Foreign ''TypeError''), st))
      else if n = ''recv'' then
        (case args of
           [] \<Rightarrow> recv call self st
         | _ \<Rightarrow> (Inl (Foreign ''TypeError''), st))
      else if n = ''is_alive'' then
        (case args of
           [] \<Rightarrow> is_alive call self st
         | _ \<Rightarrow> (Inl (Foreign ''TypeError''), st))
      else if n = ''connect'' then
        (case args of
           [] \<Rightarrow> connect call self st
         | _ \<Rightarrow> (Inl (Foreign ''TypeError''), st))
      else if n = ''close'' then
        (case args of
           [] \<Rightarrow> close call self st
         | _ \<Rightarrow> (Inl (Foreign ''TypeError''), st))
      else if n = ''get_socket'' then
        (case args of
           [] \<Rightarrow> get_socket self st
         | _ \<Rightarrow> (Inl (Foreign ''TypeError''), st))
      else if n = ''add_status_listener'' then
        (case args of
           [callback] \<Rightarrow> add_status_listener call self callback None st
         | [callback, spawn] \<Rightarrow> add_status_listener call self callback (Some spawn) st
         | _ \<Rightarrow> (Inl (Foreign ''TypeError''), st))
      else if n = ''remove_status_listener'' then
        (case args of
           [callback] \<Rightarrow> remove_status_listener call self callback st
         | _ \<Rightarrow> (Inl (Foreign ''TypeError''), st))
      else if n = ''_make_socket'' then
        (case args of
           [] \<Rightarrow> make_socket call self st
         | _ \<Rightarrow> (Inl (Foreign ''TypeError''), st))
      else (Inl (AttributeError n), st))"

text \<open>
  The method call \<^verbatim>\<open>o.n(args)\<close>, by receiver. Line 16 makes \<^verbatim>\<open>BaseController\<close> a
  subclass of \<^verbatim>\<open>stem.socket.ControlSocket\<close>, so a controller may be the socket of
  another controller: on an instance of \<^verbatim>\<open>BaseController\<close> whose dictionary does not
  shadow the name, a name of the class body runs this module's own method (\<open>own\<close>).
  Everything else is code from outside: a name the instance inherits from
  \<^verbatim>\<open>ControlSocket\<close> without overriding it, an attribute planted in the instance
  dictionary under the method's name, and every call on an object of another class.
\<close>

fun dispatch ::
  "ext \<Rightarrow> (addr \<Rightarrow> string \<Rightarrow> val list \<Rightarrow> state \<Rightarrow> result) \<Rightarrow>
     val \<Rightarrow> string \<Rightarrow> val list \<Rightarrow> state \<Rightarrow> result" where
  "dispatch ext own (VRef a) n args st =
     (if a < length (heap st) then
        (if kind (heap st ! a) = Instance ''BaseController'' \<and> attrs (heap st ! a) n = None then
           (if n \<in> set BaseController_names then own a n args st
            else if n \<in> set ControlSocket_names then external ext a n args st
            else (Inl (AttributeError n), st))
         else external ext a n args st)
      else (Inl (InvalidRef a), st))"
| "dispatch ext own _ n args st = (Inl (AttributeError n), st)"

text \<open>
  A controller over a controller forwards to it, and so on down the chain; a chain may
  even be a cycle once \<^verbatim>\<open>_socket\<close> has been reassigned. The interpreter bounds the
  nesting of calls, and \<open>d\<close> is what is left of that bound for calls into this class:
  with nothing left, the call raises \<^verbatim>\<open>RuntimeError\<close> (maximum recursion depth exceeded).
\<close>

primrec invoke :: "nat \<Rightarrow> ext \<Rightarrow> val \<Rightarrow> string \<Rightarrow> val list \<Rightarrow> state \<Rightarrow> result" where
  "invoke 0 ext = dispatch ext (\<lambda>self n args st. (Inl (Foreign ''RuntimeError''), st))"
| "invoke (Suc d) ext = dispatch ext (BaseController_method (invoke d ext) ext)"

text \<open>
  Calling a value with no argument, \<^verbatim>\<open>v()\<close>: the closure of line 71 returns the
  \<^verbatim>\<open>self\<close> it captured, a bound method runs its function on its instance, and a
  static method runs without \<^verbatim>\<open>self\<close>; an instance is not callable, nor is any other
  value.
\<close>

fun call0 :: "nat \<Rightarrow> ext \<Rightarrow> val \<Rightarrow> state \<Rightarrow> result" where
  "call0 d ext (VRef f) st =
     (if f < length (heap st) then
        (case kind (heap st ! f) of
           ProvideSelf self \<Rightarrow> (Inr (provide_self self), st)
         | Instance _ \<Rightarrow> (Inl (Foreign ''TypeError''), st))
      else (Inl (InvalidRef f), st))"
| "call0 d ext (VBound a n) st = BaseController_method (invoke d ext) ext a n [] st"
| "call0 d ext (VFunction n) st =
     (if n \<in> set static_names then BaseController_method (invoke d ext) ext 0 n [] st
      else (Inl (Foreign ''TypeError''), st))"
| "call0 d ext _ st = (Inl (Foreign ''TypeError''), st)"

section \<open>A concrete scenario\<close>

text \<open>
  Inputs at which the theorems below are evaluated: a store holding one TCP socket at
  address 0, the state the constructor leaves when it wraps that socket (the controller
  at address 1, the closure at address 2), a transport whose constructors allocate an
  instance of the class asked for and whose methods all return 7, and a transport that
  refuses every call. In the nested state a second controller, at address 3, wraps the
  controller at address 1.
\<close>

abbreviation example_socket :: obj where
  "example_socket \<equiv> \<lparr>kind = Instance ''stem.socket.ControlPort'', attrs = Map.empty\<rparr>"

abbreviation example_state :: state where
  "example_state \<equiv> \<lparr>heap = [example_socket], log = []\<rparr>"

abbreviation example_built :: state where
  "example_built \<equiv>
     \<lparr>heap = [\<lparr>kind = Instance ''stem.socket.ControlPort'',
                attrs = [''_get_self'' \<mapsto> VRef 2]\<rparr>,
              \<lparr>kind = Instance ''BaseController'', attrs = [''_socket'' \<mapsto> VRef 0]\<rparr>,
              \<lparr>kind = ProvideSelf 1, attrs = Map.empty\<rparr>],
      log = [Write 1 ''_socket'' (VRef 0), Write 0 ''_get_self'' (VRef 2)]\<rparr>"

abbreviation example_ext :: ext where
  "example_ext \<equiv>
     (\<lambda>c h. case c of
        Construct cls args \<Rightarrow>
          (Inr (VRef (length h)), h @ [\<lparr>kind = Instance cls, attrs = Map.empty\<rparr>])
      | Method a n args \<Rightarrow> (Inr (VInt 7), h))"

abbreviation refusing_ext :: ext where
  "refusing_ext \<equiv> (\<lambda>c h. (Inl (SocketError ''Connection refused''), h))"

abbreviation example_nested :: state where
  "example_nested \<equiv>
     \<lparr>heap = [\<lparr>kind = Instance ''stem.socket.ControlPort'',
                attrs = [''_get_self'' \<mapsto> VRef 2]\<rparr>,
              \<lparr>kind = Instance ''BaseController'',
                attrs = [''_socket'' \<mapsto> VRef 0, ''_get_self'' \<mapsto> VRef 4]\<rparr>,
              \<lparr>kind = ProvideSelf 1, attrs = Map.empty\<rparr>,
              \<lparr>kind = Instance ''BaseController'', attrs = [''_socket'' \<mapsto> VRef 1]\<rparr>,
              \<lparr>kind = ProvideSelf 3, attrs = Map.empty\<rparr>],
      log = [Write 1 ''_socket'' (VRef 0), Write 0 ''_get_self'' (VRef 2),
             Write 3 ''_socket'' (VRef 1), Write 1 ''_get_self'' (VRef 4)]\<rparr>"

section \<open>Construction\<close>

text \<open>
  What the class call does, for every argument: the new instance sits at the end of the
  store, the closure right after it, and only a reference to a heap object is accepted
  as the socket.
\<close>

lemma BaseController_unfold:
  "BaseController v st =
     (let n = length (heap st);
          h2 = heap st @ [\<lparr>kind = Instance ''BaseController'', attrs = [''_socket'' \<mapsto> v]\<rparr>,
                          \<lparr>kind = ProvideSelf n, attrs = Map.empty\<rparr>];
          l1 = log st @ [Write n ''_socket'' v]
      in case v of
           VRef s \<Rightarrow>
             if s < n + 2 then
               (Inr (VRef n),
                \<lparr>heap = h2[s := (h2 ! s)\<lparr>attrs := (attrs (h2 ! s))(''_get_self'' \<mapsto> VRef (Suc n))\<rparr>],
                 log = l1 @ [Write s ''_get_self'' (VRef (Suc n))]\<rparr>)
             else (Inl (InvalidRef s), \<lparr>heap = h2, log = l1\<rparr>)
         | _ \<Rightarrow> (Inl (AttributeError ''_get_self''), \<lparr>heap = h2, log = l1\<rparr>))"
  by (cases v) (simp_all add: BaseController_def init_def alloc_def Let_def nth_append)

lemma BaseController_result:
  assumes "s < length (heap st)"
  shows "BaseController (VRef s) st =
     (Inr (VRef (length (heap st))),
      \<lparr>heap = (heap st @
                [\<lparr>kind = Instance ''BaseController'', attrs = [''_socket'' \<mapsto> VRef s]\<rparr>,
                 \<lparr>kind = ProvideSelf (length (heap st)), attrs = Map.empty\<rparr>])
               [s := (heap st ! s)\<lparr>attrs := (attrs (heap st ! s))(''_get_self'' \<mapsto> VRef (Suc (length (heap st))))\<rparr>],
       log = log st @ [Write (length (heap st)) ''_socket'' (VRef s),
                       Write s ''_get_self'' (VRef (Suc (length (heap st))))]\<rparr>)"
  using assms
  by (simp add: BaseController_unfold Let_def nth_append)

lemma BaseController_address:
  assumes "BaseController v st = (Inr (VRef c), st')"
  shows "c = length (heap st)"
  using assms by (cases v) (simp_all add: BaseController_unfold Let_def split: if_splits)

lemma BaseController_length:
  assumes "BaseController v st = (Inr (VRef c), st')"
  shows "length (heap st') = length (heap st) + 2"
  using assms by (cases v) (auto simp add: BaseController_unfold Let_def split: if_splits)

lemma BaseController_kind:
  assumes "BaseController v st = (Inr (VRef c), st')"
  shows "kind (heap st' ! c) = Instance ''BaseController''"
  using assms by (cases v) (auto simp add: BaseController_unfold Let_def nth_list_update nth_append split: if_splits)

lemma BaseController_no_control_socket:
  assumes "BaseController v st = (Inr (VRef c), st')"
  shows "attrs (heap st' ! c) ''_control_socket'' = None"
  using assms by (cases v) (auto simp add: BaseController_unfold Let_def nth_list_update nth_append split: if_splits)

lemma BaseController_calls:
  "[e \<leftarrow> log (snd (BaseController v st)). is_Ext e] = [e \<leftarrow> log st. is_Ext e]"
  by (cases v) (auto simp add: BaseController_unfold Let_def split: if_splits)

lemma constructed_socket:
  assumes "s < length (heap st0)"
    and "BaseController (VRef s) st0 = (Inr (VRef c), st1)"
  shows "attrs (heap st1 ! c) = [''_socket'' \<mapsto> VRef s]"
  using assms by (auto simp add: BaseController_result nth_append)

lemma constructed_owns:
  assumes "s < length (heap st0)"
    and "BaseController (VRef s) st0 = (Inr (VRef c), st1)"
    and "c < length (heap st)"
    and "attrs (heap st ! c) = attrs (heap st1 ! c)"
  shows "getattr (VRef c) ''_socket'' st = Inr (VRef s)"
  using assms(3,4) constructed_socket [OF assms(1,2)] by simp

lemma constructed_back_reference:
  assumes "s < length (heap st0)"
    and "BaseController (VRef s) st0 = (Inr (VRef c), st1)"
  shows "attrs (heap st1 ! s) ''_get_self'' = Some (VRef (Suc c))"
    and "kind (heap st1 ! Suc c) = ProvideSelf c"
    and "call0 d ext (VRef (Suc c)) st1 = (Inr (VRef c), st1)"
    and "log st1 = log st0 @ [Write c ''_socket'' (VRef s), Write s ''_get_self'' (VRef (Suc c))]"
  using assms by (auto simp add: BaseController_result nth_append provide_self_def)

lemma example_construction:
  "BaseController (VRef 0) example_state = (Inr (VRef 1), example_built)"
  by (simp add: BaseController_result numeral_2_eq_2)

lemma example_nesting:
  "BaseController (VRef 1) example_built = (Inr (VRef 3), example_nested)"
  by (simp add: BaseController_result eval_nat_numeral)

text \<open>
  The two named constructors make one external call, the instantiation of the transport
  class, and hand its value to the class call.
\<close>

lemma from_port_success:
  assumes "ext (Construct ''stem.socket.ControlPort''
             [case a of None \<Rightarrow> VStr ''127.0.0.1'' | Some x \<Rightarrow> x,
              case p of None \<Rightarrow> VInt 9051 | Some x \<Rightarrow> x]) (heap st) = (Inr v, h)"
  shows "from_port ext a p st =
     BaseController v
       \<lparr>heap = h,
        log = log st @ [Ext (Construct ''stem.socket.ControlPort''
             [case a of None \<Rightarrow> VStr ''127.0.0.1'' | Some x \<Rightarrow> x,
              case p of None \<Rightarrow> VInt 9051 | Some x \<Rightarrow> x])]\<rparr>"
  using assms by (simp add: from_port_def construct_def)

lemma from_port_failure:
  assumes "ext (Construct ''stem.socket.ControlPort''
             [case a of None \<Rightarrow> VStr ''127.0.0.1'' | Some x \<Rightarrow> x,
              case p of None \<Rightarrow> VInt 9051 | Some x \<Rightarrow> x]) (heap st) = (Inl e, h)"
  shows "from_port ext a p st =
     (Inl e,
       \<lparr>heap = h,
        log = log st @ [Ext (Construct ''stem.socket.ControlPort''
             [case a of None \<Rightarrow> VStr ''127.0.0.1'' | Some x \<Rightarrow> x,
              case p of None \<Rightarrow> VInt 9051 | Some x \<Rightarrow> x])]\<rparr>)"
  using assms by (simp add: from_port_def construct_def)

lemma from_socket_file_success:
  assumes "ext (Construct ''stem.socket.ControlSocketFile''
             [case q of None \<Rightarrow> VStr ''/var/run/tor/control'' | Some x \<Rightarrow> x]) (heap st) = (Inr v, h)"
  shows "from_socket_file ext q st =
     BaseController v
       \<lparr>heap = h,
        log = log st @ [Ext (Construct ''stem.socket.ControlSocketFile''
             [case q of None \<Rightarrow> VStr ''/var/run/tor/control'' | Some x \<Rightarrow> x])]\<rparr>"
  using assms by (simp add: from_socket_file_def construct_def)

lemma from_socket_file_failure:
  assumes "ext (Construct ''stem.socket.ControlSocketFile''
             [case q of None \<Rightarrow> VStr ''/var/run/tor/control'' | Some x \<Rightarrow> x]) (heap st) = (Inl e, h)"
  shows "from_socket_file ext q st =
     (Inl e,
       \<lparr>heap = h,
        log = log st @ [Ext (Construct ''stem.socket.ControlSocketFile''
             [case q of None \<Rightarrow> VStr ''/var/run/tor/control'' | Some x \<Rightarrow> x])]\<rparr>)"
  using assms by (simp add: from_socket_file_def construct_def)

lemma from_port_calls:
  "[ev \<leftarrow> log (snd (from_port ext a p st)). is_Ext ev] =
     [ev \<leftarrow> log st. is_Ext ev] @
     [Ext (Construct ''stem.socket.ControlPort''
             [case a of None \<Rightarrow> VStr ''127.0.0.1'' | Some x \<Rightarrow> x,
              case p of None \<Rightarrow> VInt 9051 | Some x \<Rightarrow> x])]"
  by (simp add: from_port_def construct_def BaseController_calls split: prod.splits sum.splits)

lemma from_socket_file_calls:
  "[ev \<leftarrow> log (snd (from_socket_file ext q st)). is_Ext ev] =
     [ev \<leftarrow> log st. is_Ext ev] @
     [Ext (Construct ''stem.socket.ControlSocketFile''
             [case q of None \<Rightarrow> VStr ''/var/run/tor/control'' | Some x \<Rightarrow> x])]"
  by (simp add: from_socket_file_def construct_def BaseController_calls split: prod.splits sum.splits)

lemma from_port_constructed:
  assumes "from_port ext a p st = (Inr (VRef c), st')"
  shows "\<exists>v st1. BaseController v st1 = (Inr (VRef c), st')"
  using assms by (auto simp add: from_port_def split: prod.splits sum.splits)

lemma from_socket_file_constructed:
  assumes "from_socket_file ext q st = (Inr (VRef c), st')"
  shows "\<exists>v st1. BaseController v st1 = (Inr (VRef c), st')"
  using assms by (auto simp add: from_socket_file_def split: prod.splits sum.splits)

section \<open>Forwarding\<close>

text \<open>
  Each forwarding method reads \<^verbatim>\<open>self._socket\<close> and calls the method of the same name
  on the value found there. None of them assigns an attribute.
\<close>

lemma statement_snd: "snd (statement r) = snd r"
  by (simp add: statement_def split: prod.splits sum.splits)

lemma statement_fst:
  "fst (statement r) = (case fst r of Inl e \<Rightarrow> Inl e | Inr _ \<Rightarrow> Inr VNone)"
  by (simp add: statement_def split: prod.splits sum.splits)

lemma statement_external:
  "statement (external ext s n args st) =
     (case ext (Method s n args) (heap st) of
        (x, h) \<Rightarrow> (case x of Inl e \<Rightarrow> Inl e | Inr _ \<Rightarrow> Inr VNone,
                   \<lparr>heap = h, log = log st @ [Ext (Method s n args)]\<rparr>))"
  by (simp add: statement_def external_def split: prod.splits sum.splits)

lemma external_fst: "fst (external ext s n args st) = fst (ext (Method s n args) (heap st))"
  by (simp add: external_def split: prod.splits)

lemma external_log: "log (snd (external ext s n args st)) = log st @ [Ext (Method s n args)]"
  by (simp add: external_def split: prod.splits)

text \<open>A call on an object of another class is external, whatever bound is left.\<close>

lemma invoke_external:
  assumes "s < length (heap st)"
    and "kind (heap st ! s) = Instance cls"
    and "cls \<noteq> ''BaseController''"
  shows "invoke d ext (VRef s) n args st = external ext s n args st"
  using assms by (cases d) simp_all

lemma send_via:
  assumes "getattr (VRef c) ''_socket'' st = Inr v"
  shows "send call c m r st =
     statement (call v ''send'' [m, case r of None \<Rightarrow> VBool False | Some x \<Rightarrow> x] st)"
  using assms by (simp add: send_def)

lemma recv_via:
  assumes "getattr (VRef c) ''_socket'' st = Inr v"
  shows "recv call c st = call v ''recv'' [] st"
  using assms by (simp add: recv_def)

lemma is_alive_via:
  assumes "getattr (VRef c) ''_socket'' st = Inr v"
  shows "is_alive call c st = call v ''is_alive'' [] st"
  using assms by (simp add: is_alive_def)

lemma connect_via:
  assumes "getattr (VRef c) ''_socket'' st = Inr v"
  shows "connect call c st = statement (call v ''connect'' [] st)"
  using assms by (simp add: connect_def)

lemma close_via:
  assumes "getattr (VRef c) ''_socket'' st = Inr v"
  shows "close call c st = statement (call v ''close'' [] st)"
  using assms by (simp add: close_def)

lemma get_socket_via:
  assumes "getattr (VRef c) ''_socket'' st = Inr v"
  shows "get_socket c st = (Inr v, st)"
  using assms by (simp add: get_socket_def)

lemma add_status_listener_via:
  assumes "getattr (VRef c) ''_socket'' st = Inr v"
  shows "add_status_listener call c cb sp st =
     statement (call v ''add_status_listener''
       [cb, case sp of None \<Rightarrow> VBool True | Some b \<Rightarrow> b] st)"
  using assms by (simp add: add_status_listener_def)

lemma remove_status_listener_via:
  assumes "getattr (VRef c) ''_socket'' st = Inr v"
  shows "remove_status_listener call c cb st =
     statement (call v ''remove_status_listener'' [cb] st)"
  using assms by (simp add: remove_status_listener_def)

text \<open>
  No forwarding method assigns an attribute, however long the chain of controllers: the
  assignments in the log are those of the constructor, which is reached under the names
  \<^verbatim>\<open>__init__\<close>, \<^verbatim>\<open>from_port\<close> and \<^verbatim>\<open>from_socket_file\<close> only.
\<close>

lemma external_writes:
  "[ev \<leftarrow> log (snd (external ext a n args st)). \<not> is_Ext ev] = [ev \<leftarrow> log st. \<not> is_Ext ev]"
  by (simp add: external_log)

lemma forward_statement_writes:
  assumes "\<And>v args st'. [ev \<leftarrow> log (snd (call v n args st')). \<not> is_Ext ev]
             = [ev \<leftarrow> log st'. \<not> is_Ext ev]"
  shows "[ev \<leftarrow> log (snd (case getattr (VRef c) field st of
                            Inl e \<Rightarrow> (Inl e, st)
                          | Inr s \<Rightarrow> statement (call s n args st))). \<not> is_Ext ev]
           = [ev \<leftarrow> log st. \<not> is_Ext ev]"
  by (simp add: statement_snd assms split: sum.splits)

lemma forward_return_writes:
  assumes "\<And>v args st'. [ev \<leftarrow> log (snd (call v n args st')). \<not> is_Ext ev]
             = [ev \<leftarrow> log st'. \<not> is_Ext ev]"
  shows "[ev \<leftarrow> log (snd (case getattr (VRef c) field st of
                            Inl e \<Rightarrow> (Inl e, st)
                          | Inr s \<Rightarrow> call s n args st)). \<not> is_Ext ev]
           = [ev \<leftarrow> log st. \<not> is_Ext ev]"
  by (simp add: assms split: sum.splits)

lemma get_socket_state: "snd (get_socket c st) = st"
  by (simp add: get_socket_def split: sum.splits)

lemma BaseController_method_writes:
  assumes "\<And>v n args st'. n \<noteq> ''__init__'' \<Longrightarrow> n \<noteq> ''from_port'' \<Longrightarrow> n \<noteq> ''from_socket_file''
             \<Longrightarrow> [ev \<leftarrow> log (snd (call v n args st')). \<not> is_Ext ev]
                   = [ev \<leftarrow> log st'. \<not> is_Ext ev]"
    and "n \<noteq> ''__init__''" and "n \<noteq> ''from_port''" and "n \<noteq> ''from_socket_file''"
  shows "[ev \<leftarrow> log (snd (BaseController_method call ext self n args st)). \<not> is_Ext ev]
           = [ev \<leftarrow> log st. \<not> is_Ext ev]"
proof -
  have "[ev \<leftarrow> log (snd (send call self m r st)). \<not> is_Ext ev] = [ev \<leftarrow> log st. \<not> is_Ext ev]"
    for m r
    unfolding send_def by (rule forward_statement_writes) (simp add: assms(1))
  moreover have "[ev \<leftarrow> log (snd (recv call self st)). \<not> is_Ext ev]
      = [ev \<leftarrow> log st. \<not> is_Ext ev]"
    unfolding recv_def by (rule forward_return_writes) (simp add: assms(1))
  moreover have "[ev \<leftarrow> log (snd (is_alive call self st)). \<not> is_Ext ev]
      = [ev \<leftarrow> log st. \<not> is_Ext ev]"
    unfolding is_alive_def by (rule forward_return_writes) (simp add: assms(1))
  moreover have "[ev \<leftarrow> log (snd (connect call self st)). \<not> is_Ext ev]
      = [ev \<leftarrow> log st. \<not> is_Ext ev]"
    unfolding connect_def by (rule forward_statement_writes) (simp add: assms(1))
  moreover have "[ev \<leftarrow> log (snd (close call self st)). \<not> is_Ext ev]
      = [ev \<leftarrow> log st. \<not> is_Ext ev]"
    unfolding close_def by (rule forward_statement_writes) (simp add: assms(1))
  moreover have "[ev \<leftarrow> log (snd (add_status_listener call self cb sp st)). \<not> is_Ext ev]
      = [ev \<leftarrow> log st. \<not> is_Ext ev]" for cb sp
    unfolding add_status_listener_def by (rule forward_statement_writes) (simp add: assms(1))
  moreover have "[ev \<leftarrow> log (snd (remove_status_listener call self cb st)). \<not> is_Ext ev]
      = [ev \<leftarrow> log st. \<not> is_Ext ev]" for cb
    unfolding remove_status_listener_def by (rule forward_statement_writes) (simp add: assms(1))
  moreover have "[ev \<leftarrow> log (snd (make_socket call self st)). \<not> is_Ext ev]
      = [ev \<leftarrow> log st. \<not> is_Ext ev]"
    unfolding make_socket_def by (rule forward_statement_writes) (simp add: assms(1))
  ultimately show ?thesis
    using assms(2,3,4)
    by (simp add: BaseController_method_def get_socket_state split: list.splits)
qed

lemma dispatch_writes:
  assumes "\<And>a args st'. [ev \<leftarrow> log (snd (own a n args st')). \<not> is_Ext ev]
             = [ev \<leftarrow> log st'. \<not> is_Ext ev]"
  shows "[ev \<leftarrow> log (snd (dispatch ext own v n args st)). \<not> is_Ext ev]
           = [ev \<leftarrow> log st. \<not> is_Ext ev]"
  by (cases v) (simp_all add: assms external_writes)

lemma invoke_writes:
  assumes "n \<noteq> ''__init__''" and "n \<noteq> ''from_port''" and "n \<noteq> ''from_socket_file''"
  shows "[ev \<leftarrow> log (snd (invoke d ext v n args st)). \<not> is_Ext ev]
           = [ev \<leftarrow> log st. \<not> is_Ext ev]"
  using assms
proof (induction d arbitrary: v n args st)
  case 0
  show ?case by (simp add: dispatch_writes)
next
  case (Suc d)
  show ?case
    unfolding invoke.simps
    by (rule dispatch_writes) (rule BaseController_method_writes, (simp add: Suc)+)
qed

lemma send_writes:
  "[ev \<leftarrow> log (snd (send (invoke d ext) c m r st)). \<not> is_Ext ev] = [ev \<leftarrow> log st. \<not> is_Ext ev]"
  unfolding send_def by (rule forward_statement_writes) (simp add: invoke_writes)

lemma recv_writes:
  "[ev \<leftarrow> log (snd (recv (invoke d ext) c st)). \<not> is_Ext ev] = [ev \<leftarrow> log st. \<not> is_Ext ev]"
  unfolding recv_def by (rule forward_return_writes) (simp add: invoke_writes)

lemma is_alive_writes:
  "[ev \<leftarrow> log (snd (is_alive (invoke d ext) c st)). \<not> is_Ext ev] = [ev \<leftarrow> log st. \<not> is_Ext ev]"
  unfolding is_alive_def by (rule forward_return_writes) (simp add: invoke_writes)

lemma connect_writes:
  "[ev \<leftarrow> log (snd (connect (invoke d ext) c st)). \<not> is_Ext ev] = [ev \<leftarrow> log st. \<not> is_Ext ev]"
  unfolding connect_def by (rule forward_statement_writes) (simp add: invoke_writes)

lemma close_writes:
  "[ev \<leftarrow> log (snd (close (invoke d ext) c st)). \<not> is_Ext ev] = [ev \<leftarrow> log st. \<not> is_Ext ev]"
  unfolding close_def by (rule forward_statement_writes) (simp add: invoke_writes)

lemma add_status_listener_writes:
  "[ev \<leftarrow> log (snd (add_status_listener (invoke d ext) c cb sp st)). \<not> is_Ext ev]
     = [ev \<leftarrow> log st. \<not> is_Ext ev]"
  unfolding add_status_listener_def by (rule forward_statement_writes) (simp add: invoke_writes)

lemma remove_status_listener_writes:
  "[ev \<leftarrow> log (snd (remove_status_listener (invoke d ext) c cb st)). \<not> is_Ext ev]
     = [ev \<leftarrow> log st. \<not> is_Ext ev]"
  unfolding remove_status_listener_def by (rule forward_statement_writes) (simp add: invoke_writes)

lemma make_socket_writes:
  "[ev \<leftarrow> log (snd (make_socket (invoke d ext) c st)). \<not> is_Ext ev] = [ev \<leftarrow> log st. \<not> is_Ext ev]"
  unfolding make_socket_def by (rule forward_statement_writes) (simp add: invoke_writes)

lemma make_socket_absent:
  assumes "c < length (heap st)"
    and "kind (heap st ! c) = Instance ''BaseController''"
    and "attrs (heap st ! c) ''_control_socket'' = None"
  shows "make_socket call c st = (Inl (AttributeError ''_control_socket''), st)"
  using assms by (simp add: make_socket_def BaseController_names_def ControlSocket_names_def)

text \<open>
  A controller over a controller: \<^verbatim>\<open>recv()\<close> and \<^verbatim>\<open>send("PROTOCOLINFO")\<close> on the
  outer one, at address 3, run this module's method on the inner one, at address 1, and
  the one external call is on the transport socket at address 0. With no nesting left
  the inner call is refused.
\<close>

lemma nested_recv:
  "recv (invoke (Suc d) example_ext) 3 example_nested
     = (Inr (VInt 7),
        \<lparr>heap = heap example_nested, log = log example_nested @ [Ext (Method 0 ''recv'' [])]\<rparr>)"
  by (simp add: recv_def BaseController_method_def BaseController_names_def
      invoke_external [where cls = "''stem.socket.ControlPort''"] external_def)

lemma nested_send:
  "send (invoke (Suc d) example_ext) 3 (VStr ''PROTOCOLINFO'') None example_nested
     = (Inr VNone,
        \<lparr>heap = heap example_nested,
         log = log example_nested @
           [Ext (Method 0 ''send'' [VStr ''PROTOCOLINFO'', VBool False])]\<rparr>)"
  by (simp add: send_def BaseController_method_def BaseController_names_def
      invoke_external [where cls = "''stem.socket.ControlPort''"] external_def statement_def)

lemma nested_recv_exhausted:
  "recv (invoke 0 example_ext) 3 example_nested = (Inl (Foreign ''RuntimeError''), example_nested)"
  by (simp add: recv_def BaseController_names_def)

section \<open>The claims\<close>

text \<open>
  In the theorems below \<open>invoke d ext\<close> is the evaluation of method calls with the
  transport \<open>ext\<close> and the bound \<open>d\<close> on nested calls; both are arbitrary. A socket
  \<open>s\<close> is any heap object: where a statement speaks of the external call made, it says
  so for an \<open>s\<close> of a class other than \<^verbatim>\<open>BaseController\<close>, as the sockets of
  \<^verbatim>\<open>stem.socket\<close> are.
\<close>

text \<open>
  C1, as amended. For a controller \<open>c\<close> constructed over a socket \<open>s\<close>, the instance
  dictionary of \<open>c\<close> holds the reference to \<open>s\<close> under \<^verbatim>\<open>_socket\<close> and nothing else. In
  every state in which that dictionary is as the construction left it, \<^verbatim>\<open>get_socket\<close>
  calls nothing: it returns the reference to \<open>s\<close> and leaves the state as it was. Each of
  \<^verbatim>\<open>send\<close>, \<^verbatim>\<open>recv\<close>, \<^verbatim>\<open>is_alive\<close>, \<^verbatim>\<open>connect\<close>, \<^verbatim>\<open>close\<close>,
  \<^verbatim>\<open>add_status_listener\<close> and \<^verbatim>\<open>remove_status_listener\<close> is the call of the method of the
  same name on \<open>s\<close> with the arguments it was given (an omitted \<^verbatim>\<open>raw\<close> is
  \<^verbatim>\<open>False\<close>, an omitted \<^verbatim>\<open>spawn\<close> is \<^verbatim>\<open>True\<close>), and nothing else. When \<open>s\<close> is an
  object of another class, that is exactly one external call, the store left is the one
  that call left, and the log gains that call only.
\<close>

theorem operations_delegate:
  assumes "s < length (heap st0)"
    and "BaseController (VRef s) st0 = (Inr (VRef c), st1)"
    and "c < length (heap st)"
    and "s < length (heap st)"
    and "attrs (heap st ! c) = attrs (heap st1 ! c)"
  shows "attrs (heap st1 ! c) = [''_socket'' \<mapsto> VRef s]
    \<and> get_socket c st = (Inr (VRef s), st)
    \<and> send (invoke d ext) c m r st =
        statement (invoke d ext (VRef s) ''send''
          [m, case r of None \<Rightarrow> VBool False | Some x \<Rightarrow> x] st)
    \<and> recv (invoke d ext) c st = invoke d ext (VRef s) ''recv'' [] st
    \<and> is_alive (invoke d ext) c st = invoke d ext (VRef s) ''is_alive'' [] st
    \<and> connect (invoke d ext) c st = statement (invoke d ext (VRef s) ''connect'' [] st)
    \<and> close (invoke d ext) c st = statement (invoke d ext (VRef s) ''close'' [] st)
    \<and> add_status_listener (invoke d ext) c cb sp st =
        statement (invoke d ext (VRef s) ''add_status_listener''
          [cb, case sp of None \<Rightarrow> VBool True | Some b \<Rightarrow> b] st)
    \<and> remove_status_listener (invoke d ext) c cb st =
        statement (invoke d ext (VRef s) ''remove_status_listener'' [cb] st)
    \<and> (kind (heap st ! s) = Instance cls \<and> cls \<noteq> ''BaseController'' \<longrightarrow>
        send (invoke d ext) c m r st =
          (case ext (Method s ''send'' [m, case r of None \<Rightarrow> VBool False | Some x \<Rightarrow> x]) (heap st) of
             (x, h) \<Rightarrow>
               (case x of Inl e \<Rightarrow> Inl e | Inr _ \<Rightarrow> Inr VNone,
                \<lparr>heap = h,
                 log = log st @
                   [Ext (Method s ''send'' [m, case r of None \<Rightarrow> VBool False | Some x \<Rightarrow> x])]\<rparr>))
      \<and> recv (invoke d ext) c st =
          (case ext (Method s ''recv'' []) (heap st) of
             (x, h) \<Rightarrow> (x, \<lparr>heap = h, log = log st @ [Ext (Method s ''recv'' [])]\<rparr>))
      \<and> is_alive (invoke d ext) c st =
          (case ext (Method s ''is_alive'' []) (heap st) of
             (x, h) \<Rightarrow> (x, \<lparr>heap = h, log = log st @ [Ext (Method s ''is_alive'' [])]\<rparr>))
      \<and> connect (invoke d ext) c st =
          (case ext (Method s ''connect'' []) (heap st) of
             (x, h) \<Rightarrow>
               (case x of Inl e \<Rightarrow> Inl e | Inr _ \<Rightarrow> Inr VNone,
                \<lparr>heap = h, log = log st @ [Ext (Method s ''connect'' [])]\<rparr>))
      \<and> close (invoke d ext) c st =
          (case ext (Method s ''close'' []) (heap st) of
             (x, h) \<Rightarrow>
               (case x of Inl e \<Rightarrow> Inl e | Inr _ \<Rightarrow> Inr VNone,
                \<lparr>heap = h, log = log st @ [Ext (Method s ''close'' [])]\<rparr>))
      \<and> add_status_listener (invoke d ext) c cb sp st =
          (case ext (Method s ''add_status_listener''
                       [cb, case sp of None \<Rightarrow> VBool True | Some b \<Rightarrow> b]) (heap st) of
             (x, h) \<Rightarrow>
               (case x of Inl e \<Rightarrow> Inl e | Inr _ \<Rightarrow> Inr VNone,
                \<lparr>heap = h,
                 log = log st @
                   [Ext (Method s ''add_status_listener''
                           [cb, case sp of None \<Rightarrow> VBool True | Some b \<Rightarrow> b])]\<rparr>))
      \<and> remove_status_listener (invoke d ext) c cb st =
          (case ext (Method s ''remove_status_listener'' [cb]) (heap st) of
             (x, h) \<Rightarrow>
               (case x of Inl e \<Rightarrow> Inl e | Inr _ \<Rightarrow> Inr VNone,
                \<lparr>heap = h, log = log st @ [Ext (Method s ''remove_status_listener'' [cb])]\<rparr>)))"
proof -
  note own = constructed_owns [OF assms(1,2,3,5)]
  have dict: "attrs (heap st1 ! c) = [''_socket'' \<mapsto> VRef s]"
    by (rule constructed_socket [OF assms(1,2)])
  have gs: "get_socket c st = (Inr (VRef s), st)"
    by (rule get_socket_via [OF own])
  note via = send_via [OF own, of "invoke d ext" m r] recv_via [OF own, of "invoke d ext"]
    is_alive_via [OF own, of "invoke d ext"] connect_via [OF own, of "invoke d ext"]
    close_via [OF own, of "invoke d ext"]
    add_status_listener_via [OF own, of "invoke d ext" cb sp]
    remove_status_listener_via [OF own, of "invoke d ext" cb]
  have explicit: "send (invoke d ext) c m r st =
          (case ext (Method s ''send'' [m, case r of None \<Rightarrow> VBool False | Some x \<Rightarrow> x]) (heap st) of
             (x, h) \<Rightarrow>
               (case x of Inl e \<Rightarrow> Inl e | Inr _ \<Rightarrow> Inr VNone,
                \<lparr>heap = h,
                 log = log st @
                   [Ext (Method s ''send'' [m, case r of None \<Rightarrow> VBool False | Some x \<Rightarrow> x])]\<rparr>))
      \<and> recv (invoke d ext) c st =
          (case ext (Method s ''recv'' []) (heap st) of
             (x, h) \<Rightarrow> (x, \<lparr>heap = h, log = log st @ [Ext (Method s ''recv'' [])]\<rparr>))
      \<and> is_alive (invoke d ext) c st =
          (case ext (Method s ''is_alive'' []) (heap st) of
             (x, h) \<Rightarrow> (x, \<lparr>heap = h, log = log st @ [Ext (Method s ''is_alive'' [])]\<rparr>))
      \<and> connect (invoke d ext) c st =
          (case ext (Method s ''connect'' []) (heap st) of
             (x, h) \<Rightarrow>
               (case x of Inl e \<Rightarrow> Inl e | Inr _ \<Rightarrow> Inr VNone,
                \<lparr>heap = h, log = log st @ [Ext (Method s ''connect'' [])]\<rparr>))
      \<and> close (invoke d ext) c st =
          (case ext (Method s ''close'' []) (heap st) of
             (x, h) \<Rightarrow>
               (case x of Inl e \<Rightarrow> Inl e | Inr _ \<Rightarrow> Inr VNone,
                \<lparr>heap = h, log = log st @ [Ext (Method s ''close'' [])]\<rparr>))
      \<and> add_status_listener (invoke d ext) c cb sp st =
          (case ext (Method s ''add_status_listener''
                       [cb, case sp of None \<Rightarrow> VBool True | Some b \<Rightarrow> b]) (heap st) of
             (x, h) \<Rightarrow>
               (case x of Inl e \<Rightarrow> Inl e | Inr _ \<Rightarrow> Inr VNone,
                \<lparr>heap = h,
                 log = log st @
                   [Ext (Method s ''add_status_listener''
                           [cb, case sp of None \<Rightarrow> VBool True | Some b \<Rightarrow> b])]\<rparr>))
      \<and> remove_status_listener (invoke d ext) c cb st =
          (case ext (Method s ''remove_status_listener'' [cb]) (heap st) of
             (x, h) \<Rightarrow>
               (case x of Inl e \<Rightarrow> Inl e | Inr _ \<Rightarrow> Inr VNone,
                \<lparr>heap = h, log = log st @ [Ext (Method s ''remove_status_listener'' [cb])]\<rparr>))"
    if outside: "kind (heap st ! s) = Instance cls" "cls \<noteq> ''BaseController''"
  proof -
    note out = invoke_external [OF assms(4) outside]
    show ?thesis
      unfolding via out statement_external
      by (simp add: external_def)
  qed
  show ?thesis
    using dict gs via explicit by blast
qed

text \<open>
  C1 at the concrete scenario: \<^verbatim>\<open>send("PROTOCOLINFO")\<close> and \<^verbatim>\<open>recv()\<close> on the controller at
  address 1 each log one call on the socket at address 0.
\<close>

theorem operations_delegate_witness:
  "attrs (heap example_built ! 1) = [''_socket'' \<mapsto> VRef 0]
   \<and> send (invoke 1000 example_ext) 1 (VStr ''PROTOCOLINFO'') None example_built
     = (Inr VNone,
        \<lparr>heap = heap example_built,
         log = log example_built @
           [Ext (Method 0 ''send'' [VStr ''PROTOCOLINFO'', VBool False])]\<rparr>)
   \<and> recv (invoke 1000 example_ext) 1 example_built
     = (Inr (VInt 7),
        \<lparr>heap = heap example_built,
         log = log example_built @ [Ext (Method 0 ''recv'' [])]\<rparr>)
   \<and> get_socket 1 example_built = (Inr (VRef 0), example_built)"
proof -
  have s: "0 < length (heap example_state)" by simp
  have c: "1 < length (heap example_built)" by simp
  have s': "0 < length (heap example_built)" by simp
  show ?thesis
    using operations_delegate [OF s example_construction c s' refl,
        where d = 1000 and ext = example_ext and m = "VStr ''PROTOCOLINFO''" and r = None
          and cls = "''stem.socket.ControlPort''"]
    by (simp add: invoke_external [where cls = "''stem.socket.ControlPort''"]
        external_def statement_def)
qed

text \<open>
  C1 as stated fails for \<^verbatim>\<open>get_socket\<close>: on the controller at address 1, constructed over
  the socket at address 0, it returns the socket and the log stays as the constructor left
  it; no \<^verbatim>\<open>get_socket\<close> of the socket is called.
\<close>

theorem get_socket_invokes_nothing:
  "BaseController (VRef 0) example_state = (Inr (VRef 1), example_built)
   \<and> get_socket 1 example_built = (Inr (VRef 0), example_built)
   \<and> log (snd (get_socket 1 example_built))
       \<noteq> log example_built @ [Ext (Method 0 ''get_socket'' [])]
   \<and> Ext (Method 0 ''get_socket'' []) \<notin> set (log (snd (get_socket 1 example_built)))"
  by (simp add: example_construction get_socket_def)

text \<open>
  C2. Called with no argument, \<^verbatim>\<open>from_port\<close> is \<^verbatim>\<open>from_port("127.0.0.1", 9051)\<close>: it
  instantiates \<^verbatim>\<open>stem.socket.ControlPort\<close> with those two values and, when that yields a
  socket \<open>s\<close>, returns the value of \<^verbatim>\<open>BaseController(s)\<close>: a new instance of
  \<^verbatim>\<open>BaseController\<close> whose only attribute is \<^verbatim>\<open>_socket\<close>, holding \<open>s\<close>. The
  instantiation is the only external call made.
\<close>

theorem from_port_defaults:
  assumes "ext (Construct ''stem.socket.ControlPort'' [VStr ''127.0.0.1'', VInt 9051]) (heap st)
             = (Inr (VRef s), h)"
    and "s < length h"
  shows "from_port ext None None st
           = from_port ext (Some (VStr ''127.0.0.1'')) (Some (VInt 9051)) st
    \<and> from_port ext None None st
           = BaseController (VRef s)
               \<lparr>heap = h,
                log = log st @
                  [Ext (Construct ''stem.socket.ControlPort'' [VStr ''127.0.0.1'', VInt 9051])]\<rparr>
    \<and> (\<exists>c st'. from_port ext None None st = (Inr (VRef c), st')
          \<and> kind (heap st' ! c) = Instance ''BaseController''
          \<and> attrs (heap st' ! c) = [''_socket'' \<mapsto> VRef s]
          \<and> get_socket c st' = (Inr (VRef s), st')
          \<and> [ev \<leftarrow> log st'. is_Ext ev] = [ev \<leftarrow> log st. is_Ext ev] @
               [Ext (Construct ''stem.socket.ControlPort'' [VStr ''127.0.0.1'', VInt 9051])])"
proof -
  let ?st1 = "\<lparr>heap = h,
                log = log st @
                  [Ext (Construct ''stem.socket.ControlPort'' [VStr ''127.0.0.1'', VInt 9051])]\<rparr>"
  have eq: "from_port ext None None st = BaseController (VRef s) ?st1"
    using from_port_success [of ext None None st "VRef s" h] assms(1) by simp
  have s: "s < length (heap ?st1)"
    using assms(2) by simp
  obtain c st' where built: "BaseController (VRef s) ?st1 = (Inr (VRef c), st')"
    using BaseController_result [OF s] by blast
  have dict: "attrs (heap st' ! c) = [''_socket'' \<mapsto> VRef s]"
    by (rule constructed_socket [OF s built])
  have c: "c < length (heap st')"
    using BaseController_address [OF built] BaseController_length [OF built] by simp
  have "get_socket c st' = (Inr (VRef s), st')"
    using c dict by (simp add: get_socket_def)
  moreover have "[ev \<leftarrow> log st'. is_Ext ev] = [ev \<leftarrow> log st. is_Ext ev] @
               [Ext (Construct ''stem.socket.ControlPort'' [VStr ''127.0.0.1'', VInt 9051])]"
    using from_port_calls [of ext None None st] eq built by simp
  moreover have "from_port ext None None st
           = from_port ext (Some (VStr ''127.0.0.1'')) (Some (VInt 9051)) st"
    by (simp add: from_port_def)
  moreover have "from_port ext None None st = (Inr (VRef c), st')"
    using eq built by simp
  ultimately show ?thesis
    using eq dict BaseController_kind [OF built] by blast
qed

text \<open>
  C2 at the transport of the scenario, from the empty store: the socket is allocated at
  address 0 and the controller returned is at address 1.
\<close>

theorem from_port_defaults_witness:
  "from_port example_ext None None \<lparr>heap = [], log = []\<rparr>
     = (Inr (VRef 1),
        \<lparr>heap = heap example_built,
         log = Ext (Construct ''stem.socket.ControlPort'' [VStr ''127.0.0.1'', VInt 9051])
                 # log example_built\<rparr>)"
proof -
  have built: "example_ext (Construct ''stem.socket.ControlPort'' [VStr ''127.0.0.1'', VInt 9051])
      (heap \<lparr>heap = [], log = []\<rparr>) = (Inr (VRef 0), [example_socket])"
    by simp
  have live: "0 < length [example_socket]" by simp
  show ?thesis
    using from_port_defaults [of example_ext "\<lparr>heap = [], log = []\<rparr>" 0 "[example_socket]",
        OF built live, THEN conjunct2, THEN conjunct1]
    by (simp add: BaseController_result numeral_2_eq_2)
qed

text \<open>
  C3. Called with no argument, \<^verbatim>\<open>from_socket_file\<close> is
  \<^verbatim>\<open>from_socket_file("/var/run/tor/control")\<close>: it instantiates
  \<^verbatim>\<open>stem.socket.ControlSocketFile\<close> with that path and, when that yields a socket \<open>s\<close>,
  returns the value of \<^verbatim>\<open>BaseController(s)\<close>: a new instance of \<^verbatim>\<open>BaseController\<close> whose
  only attribute is \<^verbatim>\<open>_socket\<close>, holding \<open>s\<close>. The instantiation is the only external
  call made.
\<close>

theorem from_socket_file_default:
  assumes "ext (Construct ''stem.socket.ControlSocketFile'' [VStr ''/var/run/tor/control'']) (heap st)
             = (Inr (VRef s), h)"
    and "s < length h"
  shows "from_socket_file ext None st
           = from_socket_file ext (Some (VStr ''/var/run/tor/control'')) st
    \<and> from_socket_file ext None st
           = BaseController (VRef s)
               \<lparr>heap = h,
                log = log st @
                  [Ext (Construct ''stem.socket.ControlSocketFile'' [VStr ''/var/run/tor/control''])]\<rparr>
    \<and> (\<exists>c st'. from_socket_file ext None st = (Inr (VRef c), st')
          \<and> kind (heap st' ! c) = Instance ''BaseController''
          \<and> attrs (heap st' ! c) = [''_socket'' \<mapsto> VRef s]
          \<and> get_socket c st' = (Inr (VRef s), st')
          \<and> [ev \<leftarrow> log st'. is_Ext ev] = [ev \<leftarrow> log st. is_Ext ev] @
               [Ext (Construct ''stem.socket.ControlSocketFile'' [VStr ''/var/run/tor/control''])])"
proof -
  let ?st1 = "\<lparr>heap = h,
                log = log st @
                  [Ext (Construct ''stem.socket.ControlSocketFile'' [VStr ''/var/run/tor/control''])]\<rparr>"
  have eq: "from_socket_file ext None st = BaseController (VRef s) ?st1"
    using from_socket_file_success [of ext None st "VRef s" h] assms(1) by simp
  have s: "s < length (heap ?st1)"
    using assms(2) by simp
  obtain c st' where built: "BaseController (VRef s) ?st1 = (Inr (VRef c), st')"
    using BaseController_result [OF s] by blast
  have dict: "attrs (heap st' ! c) = [''_socket'' \<mapsto> VRef s]"
    by (rule constructed_socket [OF s built])
  have c: "c < length (heap st')"
    using BaseController_address [OF built] BaseController_length [OF built] by simp
  have "get_socket c st' = (Inr (VRef s), st')"
    using c dict by (simp add: get_socket_def)
  moreover have "[ev \<leftarrow> log st'. is_Ext ev] = [ev \<leftarrow> log st. is_Ext ev] @
               [Ext (Construct ''stem.socket.ControlSocketFile'' [VStr ''/var/run/tor/control''])]"
    using from_socket_file_calls [of ext None st] eq built by simp
  moreover have "from_socket_file ext None st
           = from_socket_file ext (Some (VStr ''/var/run/tor/control'')) st"
    by (simp add: from_socket_file_def)
  moreover have "from_socket_file ext None st = (Inr (VRef c), st')"
    using eq built by simp
  ultimately show ?thesis
    using eq dict BaseController_kind [OF built] by blast
qed

text \<open>
  C3 at the transport of the scenario, from the empty store.
\<close>

theorem from_socket_file_default_witness:
  "from_socket_file example_ext None \<lparr>heap = [], log = []\<rparr>
     = (Inr (VRef 1),
        \<lparr>heap = [\<lparr>kind = Instance ''stem.socket.ControlSocketFile'',
                   attrs = [''_get_self'' \<mapsto> VRef 2]\<rparr>,
                 \<lparr>kind = Instance ''BaseController'', attrs = [''_socket'' \<mapsto> VRef 0]\<rparr>,
                 \<lparr>kind = ProvideSelf 1, attrs = Map.empty\<rparr>],
         log = [Ext (Construct ''stem.socket.ControlSocketFile'' [VStr ''/var/run/tor/control'']),
                Write 1 ''_socket'' (VRef 0), Write 0 ''_get_self'' (VRef 2)]\<rparr>)"
proof -
  have built: "example_ext (Construct ''stem.socket.ControlSocketFile'' [VStr ''/var/run/tor/control''])
      (heap \<lparr>heap = [], log = []\<rparr>)
      = (Inr (VRef 0), [\<lparr>kind = Instance ''stem.socket.ControlSocketFile'', attrs = Map.empty\<rparr>])"
    by simp
  have live: "0 < length [\<lparr>kind = Instance ''stem.socket.ControlSocketFile'', attrs = Map.empty\<rparr>]"
    by simp
  show ?thesis
    using from_socket_file_default [of example_ext "\<lparr>heap = [], log = []\<rparr>" 0
        "[\<lparr>kind = Instance ''stem.socket.ControlSocketFile'', attrs = Map.empty\<rparr>]",
        OF built live, THEN conjunct2, THEN conjunct1]
    by (simp add: BaseController_result numeral_2_eq_2)
qed

text \<open>
  C4. When the instantiation of the transport class raises \<open>e\<close>, \<^verbatim>\<open>from_port\<close> and
  \<^verbatim>\<open>from_socket_file\<close> raise the same \<open>e\<close>; the store is the one the transport left, so
  no controller was allocated, and the log has gained the instantiation only. Whatever
  the outcome, the instantiation is the one external call either constructor makes: no
  method of the socket is called, hence no handshake and no authentication.
\<close>

theorem constructors_propagate:
  "(ext (Construct ''stem.socket.ControlPort''
           [case a of None \<Rightarrow> VStr ''127.0.0.1'' | Some x \<Rightarrow> x,
            case p of None \<Rightarrow> VInt 9051 | Some x \<Rightarrow> x]) (heap st) = (Inl e, h)
      \<longrightarrow> from_port ext a p st =
            (Inl e,
             \<lparr>heap = h,
              log = log st @ [Ext (Construct ''stem.socket.ControlPort''
                [case a of None \<Rightarrow> VStr ''127.0.0.1'' | Some x \<Rightarrow> x,
                 case p of None \<Rightarrow> VInt 9051 | Some x \<Rightarrow> x])]\<rparr>))
   \<and> (ext (Construct ''stem.socket.ControlSocketFile''
           [case q of None \<Rightarrow> VStr ''/var/run/tor/control'' | Some x \<Rightarrow> x]) (heap st) = (Inl e', h')
      \<longrightarrow> from_socket_file ext q st =
            (Inl e',
             \<lparr>heap = h',
              log = log st @ [Ext (Construct ''stem.socket.ControlSocketFile''
                [case q of None \<Rightarrow> VStr ''/var/run/tor/control'' | Some x \<Rightarrow> x])]\<rparr>))
   \<and> [ev \<leftarrow> log (snd (from_port ext a p st)). is_Ext ev] =
       [ev \<leftarrow> log st. is_Ext ev] @
       [Ext (Construct ''stem.socket.ControlPort''
          [case a of None \<Rightarrow> VStr ''127.0.0.1'' | Some x \<Rightarrow> x,
           case p of None \<Rightarrow> VInt 9051 | Some x \<Rightarrow> x])]
   \<and> [ev \<leftarrow> log (snd (from_socket_file ext q st)). is_Ext ev] =
       [ev \<leftarrow> log st. is_Ext ev] @
       [Ext (Construct ''stem.socket.ControlSocketFile''
          [case q of None \<Rightarrow> VStr ''/var/run/tor/control'' | Some x \<Rightarrow> x])]"
  using from_port_failure [of ext a p st e h] from_socket_file_failure [of ext q st e' h']
    from_port_calls [of ext a p st] from_socket_file_calls [of ext q st]
  by blast

text \<open>
  C4 at a transport that refuses the connection.
\<close>

theorem constructors_propagate_witness:
  "from_port refusing_ext None None \<lparr>heap = [], log = []\<rparr>
     = (Inl (SocketError ''Connection refused''),
        \<lparr>heap = [],
         log = [Ext (Construct ''stem.socket.ControlPort'' [VStr ''127.0.0.1'', VInt 9051])]\<rparr>)
   \<and> from_socket_file refusing_ext None \<lparr>heap = [], log = []\<rparr>
     = (Inl (SocketError ''Connection refused''),
        \<lparr>heap = [],
         log = [Ext (Construct ''stem.socket.ControlSocketFile'' [VStr ''/var/run/tor/control''])]\<rparr>)"
  using constructors_propagate [of refusing_ext None None "\<lparr>heap = [], log = []\<rparr>"
      "SocketError ''Connection refused''" "[]" None "SocketError ''Connection refused''" "[]"]
  by simp

text \<open>
  C5. After \<^verbatim>\<open>BaseController(s)\<close> has returned the controller \<open>c\<close>, the attribute
  \<^verbatim>\<open>_get_self\<close> of \<open>s\<close> refers to the closure of line 71 that captured \<open>c\<close>, and
  calling it returns \<open>c\<close> and changes nothing. The constructor assigns it once: its two
  assignments are \<^verbatim>\<open>c._socket\<close> and \<^verbatim>\<open>s._get_self\<close>. No method of the class assigns
  any attribute afterwards: on every controller and in every state, the assignments in
  the log are the same before and after a call of any of them.
\<close>

theorem back_reference:
  assumes "s < length (heap st0)"
    and "BaseController (VRef s) st0 = (Inr (VRef c), st1)"
  shows "(\<exists>f. attrs (heap st1 ! s) ''_get_self'' = Some (VRef f)
            \<and> kind (heap st1 ! f) = ProvideSelf c
            \<and> call0 d ext (VRef f) st1 = (Inr (VRef c), st1)
            \<and> log st1 = log st0 @
                 [Write c ''_socket'' (VRef s), Write s ''_get_self'' (VRef f)])
    \<and> [ev \<leftarrow> log (snd (send (invoke d ext) c' m r st)). \<not> is_Ext ev]
         = [ev \<leftarrow> log st. \<not> is_Ext ev]
    \<and> [ev \<leftarrow> log (snd (recv (invoke d ext) c' st)). \<not> is_Ext ev]
         = [ev \<leftarrow> log st. \<not> is_Ext ev]
    \<and> [ev \<leftarrow> log (snd (is_alive (invoke d ext) c' st)). \<not> is_Ext ev]
         = [ev \<leftarrow> log st. \<not> is_Ext ev]
    \<and> [ev \<leftarrow> log (snd (connect (invoke d ext) c' st)). \<not> is_Ext ev]
         = [ev \<leftarrow> log st. \<not> is_Ext ev]
    \<and> [ev \<leftarrow> log (snd (close (invoke d ext) c' st)). \<not> is_Ext ev]
         = [ev \<leftarrow> log st. \<not> is_Ext ev]
    \<and> snd (get_socket c' st) = st
    \<and> [ev \<leftarrow> log (snd (add_status_listener (invoke d ext) c' cb sp st)). \<not> is_Ext ev]
         = [ev \<leftarrow> log st. \<not> is_Ext ev]
    \<and> [ev \<leftarrow> log (snd (remove_status_listener (invoke d ext) c' cb st)). \<not> is_Ext ev]
         = [ev \<leftarrow> log st. \<not> is_Ext ev]
    \<and> [ev \<leftarrow> log (snd (make_socket (invoke d ext) c' st)). \<not> is_Ext ev]
         = [ev \<leftarrow> log st. \<not> is_Ext ev]"
  using constructed_back_reference [OF assms]
    send_writes [of d ext c' m r st] recv_writes [of d ext c' st] is_alive_writes [of d ext c' st]
    connect_writes [of d ext c' st] close_writes [of d ext c' st] get_socket_state [of c' st]
    add_status_listener_writes [of d ext c' cb sp st]
    remove_status_listener_writes [of d ext c' cb st]
    make_socket_writes [of d ext c' st]
  by blast

text \<open>
  C5 at the concrete scenario: the closure is at address 2 and returns the controller
  at address 1.
\<close>

theorem back_reference_witness:
  "attrs (heap example_built ! 0) ''_get_self'' = Some (VRef 2)
   \<and> kind (heap example_built ! 2) = ProvideSelf 1
   \<and> call0 1000 example_ext (VRef 2) example_built = (Inr (VRef 1), example_built)
   \<and> log example_built = [Write 1 ''_socket'' (VRef 0), Write 0 ''_get_self'' (VRef 2)]"
proof -
  have s: "0 < length (heap example_state)" by simp
  show ?thesis
    using back_reference [OF s example_construction, where d = 1000 and ext = example_ext]
    by (simp add: provide_self_def)
qed

text \<open>
  C6. For a controller \<open>c\<close> constructed over a socket \<open>s\<close>, in every state in which the
  dictionary of \<open>c\<close> is as the construction left it, \<^verbatim>\<open>get_socket()\<close> returns the
  reference to \<open>s\<close> and the state is unchanged: nothing is called, written or logged.
  That reference is the receiver of the call each forwarding method makes.
\<close>

theorem get_socket_returns_socket:
  assumes "s < length (heap st0)"
    and "BaseController (VRef s) st0 = (Inr (VRef c), st1)"
    and "c < length (heap st)"
    and "s < length (heap st)"
    and "attrs (heap st ! c) = attrs (heap st1 ! c)"
  shows "get_socket c st = (Inr (VRef s), st)
    \<and> send (invoke d ext) c m r st =
        statement (invoke d ext (VRef s) ''send''
          [m, case r of None \<Rightarrow> VBool False | Some x \<Rightarrow> x] st)
    \<and> recv (invoke d ext) c st = invoke d ext (VRef s) ''recv'' [] st
    \<and> is_alive (invoke d ext) c st = invoke d ext (VRef s) ''is_alive'' [] st
    \<and> connect (invoke d ext) c st = statement (invoke d ext (VRef s) ''connect'' [] st)
    \<and> close (invoke d ext) c st = statement (invoke d ext (VRef s) ''close'' [] st)
    \<and> add_status_listener (invoke d ext) c cb sp st =
        statement (invoke d ext (VRef s) ''add_status_listener''
          [cb, case sp of None \<Rightarrow> VBool True | Some b \<Rightarrow> b] st)
    \<and> remove_status_listener (invoke d ext) c cb st =
        statement (invoke d ext (VRef s) ''remove_status_listener'' [cb] st)"
proof -
  note own = constructed_owns [OF assms(1,2,3,5)]
  show ?thesis
    using get_socket_via [OF own] send_via [OF own, of "invoke d ext" m r]
      recv_via [OF own, of "invoke d ext"] is_alive_via [OF own, of "invoke d ext"]
      connect_via [OF own, of "invoke d ext"] close_via [OF own, of "invoke d ext"]
      add_status_listener_via [OF own, of "invoke d ext" cb sp]
      remove_status_listener_via [OF own, of "invoke d ext" cb]
    by blast
qed

text \<open>
  C6 at the concrete scenario.
\<close>

theorem get_socket_returns_socket_witness:
  "get_socket 1 example_built = (Inr (VRef 0), example_built)
   \<and> close (invoke 1000 example_ext) 1 example_built
       = statement (invoke 1000 example_ext (VRef 0) ''close'' [] example_built)"
proof -
  have s: "0 < length (heap example_state)" by simp
  have c: "1 < length (heap example_built)" by simp
  have s': "0 < length (heap example_built)" by simp
  show ?thesis
    using get_socket_returns_socket [OF s example_construction c s' refl,
        where d = 1000 and ext = example_ext]
    by blast
qed

text \<open>
  C7. \<^verbatim>\<open>send(m)\<close> is \<^verbatim>\<open>send(m, False)\<close>. For a controller \<open>c\<close> constructed over a socket
  \<open>s\<close>, \<^verbatim>\<open>send(m)\<close> is the statement \<^verbatim>\<open>s.send(m, False)\<close> and \<^verbatim>\<open>send(m, r)\<close> is the
  statement \<^verbatim>\<open>s.send(m, r)\<close>, whatever \<open>s\<close> is. When \<open>s\<close> is an object of another
  class, the one call logged is that \<^verbatim>\<open>send\<close> of \<open>s\<close>, carrying \<open>m\<close> and the flag
  unchanged.
\<close>

theorem send_raw_default:
  assumes "s < length (heap st0)"
    and "BaseController (VRef s) st0 = (Inr (VRef c), st1)"
    and "c < length (heap st)"
    and "s < length (heap st)"
    and "attrs (heap st ! c) = attrs (heap st1 ! c)"
  shows "send (invoke d ext) c m None st = send (invoke d ext) c m (Some (VBool False)) st
    \<and> send (invoke d ext) c m None st
        = statement (invoke d ext (VRef s) ''send'' [m, VBool False] st)
    \<and> send (invoke d ext) c m (Some r) st
        = statement (invoke d ext (VRef s) ''send'' [m, r] st)
    \<and> (kind (heap st ! s) = Instance cls \<and> cls \<noteq> ''BaseController'' \<longrightarrow>
        log (snd (send (invoke d ext) c m None st))
          = log st @ [Ext (Method s ''send'' [m, VBool False])]
      \<and> log (snd (send (invoke d ext) c m (Some r) st))
          = log st @ [Ext (Method s ''send'' [m, r])])"
proof -
  note own = constructed_owns [OF assms(1,2,3,5)]
  have dflt: "send (invoke d ext) c m None st = send (invoke d ext) c m (Some (VBool False)) st"
    by (simp add: send_def split: sum.splits)
  have omitted: "send (invoke d ext) c m None st
      = statement (invoke d ext (VRef s) ''send'' [m, VBool False] st)"
    using send_via [OF own, of "invoke d ext" m None] by simp
  have given: "send (invoke d ext) c m (Some r) st
      = statement (invoke d ext (VRef s) ''send'' [m, r] st)"
    using send_via [OF own, of "invoke d ext" m "Some r"] by simp
  have logged: "log (snd (send (invoke d ext) c m None st))
          = log st @ [Ext (Method s ''send'' [m, VBool False])]
      \<and> log (snd (send (invoke d ext) c m (Some r) st))
          = log st @ [Ext (Method s ''send'' [m, r])]"
    if outside: "kind (heap st ! s) = Instance cls" "cls \<noteq> ''BaseController''"
    unfolding omitted given invoke_external [OF assms(4) outside] statement_snd external_log
    by simp
  show ?thesis
    using dflt omitted given logged by blast
qed

text \<open>
  C7 at the concrete scenario, with the flag omitted and with the flag \<^verbatim>\<open>True\<close>.
\<close>

theorem send_raw_default_witness:
  "send (invoke 1000 example_ext) 1 (VStr ''GETINFO version'') None example_built
     = send (invoke 1000 example_ext) 1 (VStr ''GETINFO version'') (Some (VBool False))
         example_built
   \<and> log (snd (send (invoke 1000 example_ext) 1 (VStr ''GETINFO version'') None example_built))
     = log example_built @ [Ext (Method 0 ''send'' [VStr ''GETINFO version'', VBool False])]
   \<and> log (snd (send (invoke 1000 example_ext) 1 (VStr ''GETINFO version'') (Some (VBool True))
         example_built))
     = log example_built @ [Ext (Method 0 ''send'' [VStr ''GETINFO version'', VBool True])]"
proof -
  have s: "0 < length (heap example_state)" by simp
  have c: "1 < length (heap example_built)" by simp
  have s': "0 < length (heap example_built)" by simp
  have k: "kind (heap example_built ! 0) = Instance ''stem.socket.ControlPort''
      \<and> ''stem.socket.ControlPort'' \<noteq> ''BaseController''"
    by simp
  show ?thesis
    using send_raw_default [OF s example_construction c s' refl,
        where d = 1000 and ext = example_ext and m = "VStr ''GETINFO version''"
          and r = "VBool True" and cls = "''stem.socket.ControlPort''"] k
    by blast
qed

text \<open>
  C8. On a controller \<open>c\<close> built by the class call, by \<^verbatim>\<open>from_port\<close> or by
  \<^verbatim>\<open>from_socket_file\<close>, in every state in which the object \<open>c\<close> is as the construction
  left it, \<^verbatim>\<open>_make_socket()\<close> raises \<^verbatim>\<open>AttributeError\<close> for the name
  \<^verbatim>\<open>_control_socket\<close>: no constructor assigns it (the field is \<^verbatim>\<open>_socket\<close>) and the
  class does not bind it. The state is unchanged, so the \<^verbatim>\<open>_make_socket\<close> of the socket
  is not called.
\<close>

theorem make_socket_raises:
  assumes "BaseController v st0 = (Inr (VRef c), st1)
      \<or> from_port ext1 a p st0 = (Inr (VRef c), st1)
      \<or> from_socket_file ext1 q st0 = (Inr (VRef c), st1)"
    and "c < length (heap st)"
    and "heap st ! c = heap st1 ! c"
  shows "make_socket (invoke d ext) c st = (Inl (AttributeError ''_control_socket''), st)"
proof -
  obtain v' st' where built: "BaseController v' st' = (Inr (VRef c), st1)"
    using assms(1) from_port_constructed from_socket_file_constructed by blast
  have "kind (heap st ! c) = Instance ''BaseController''"
    using BaseController_kind [OF built] assms(3) by simp
  moreover have "attrs (heap st ! c) ''_control_socket'' = None"
    using BaseController_no_control_socket [OF built] assms(3) by simp
  ultimately show ?thesis
    using assms(2) by (rule make_socket_absent [rotated 1])
qed

text \<open>
  C8 at the concrete scenario, for a controller of each of the three origins.
\<close>

theorem make_socket_raises_witness:
  "make_socket (invoke 1000 example_ext) 1 example_built
     = (Inl (AttributeError ''_control_socket''), example_built)
   \<and> make_socket (invoke 1000 example_ext) 1
       (snd (from_port example_ext None None \<lparr>heap = [], log = []\<rparr>))
     = (Inl (AttributeError ''_control_socket''),
        snd (from_port example_ext None None \<lparr>heap = [], log = []\<rparr>))
   \<and> make_socket (invoke 1000 example_ext) 1
       (snd (from_socket_file example_ext None \<lparr>heap = [], log = []\<rparr>))
     = (Inl (AttributeError ''_control_socket''),
        snd (from_socket_file example_ext None \<lparr>heap = [], log = []\<rparr>))"
proof -
  have c: "1 < length (heap example_built)" by simp
  have p: "from_port example_ext None None \<lparr>heap = [], log = []\<rparr>
      = (Inr (VRef 1), snd (from_port example_ext None None \<lparr>heap = [], log = []\<rparr>))"
    by (simp add: from_port_def construct_def BaseController_result)
  have cp: "1 < length (heap (snd (from_port example_ext None None \<lparr>heap = [], log = []\<rparr>)))"
    by (simp add: from_port_def construct_def BaseController_result)
  have f: "from_socket_file example_ext None \<lparr>heap = [], log = []\<rparr>
      = (Inr (VRef 1), snd (from_socket_file example_ext None \<lparr>heap = [], log = []\<rparr>))"
    by (simp add: from_socket_file_def construct_def BaseController_result)
  have cf: "1 < length (heap (snd (from_socket_file example_ext None \<lparr>heap = [], log = []\<rparr>)))"
    by (simp add: from_socket_file_def construct_def BaseController_result)
  show ?thesis
    using make_socket_raises [OF disjI1, OF example_construction c refl,
        where d = 1000 and ext = example_ext]
      make_socket_raises [OF disjI2, OF disjI1, OF p cp refl,
        where d = 1000 and ext = example_ext]
      make_socket_raises [OF disjI2, OF disjI2, OF f cf refl,
        where d = 1000 and ext = example_ext]
    by blast
qed

text \<open>
  C9, as amended. For a controller \<open>c\<close> constructed over a socket \<open>s\<close>: when the
  \<^verbatim>\<open>send\<close>, \<^verbatim>\<open>connect\<close> or \<^verbatim>\<open>close\<close> of \<open>s\<close> returns a value, whatever it is, the
  method of the controller returns \<^verbatim>\<open>None\<close> (an exception of \<open>s\<close> propagates), whereas
  \<^verbatim>\<open>recv\<close> and \<^verbatim>\<open>is_alive\<close> have the outcome of the call on \<open>s\<close>. When \<open>s\<close> is an
  object of another class, that outcome is the transport's answer to the one external
  call. \<^verbatim>\<open>get_socket\<close> delegates nothing: it returns the reference to \<open>s\<close> that the
  constructor stored, and the state is unchanged.
\<close>

theorem return_values:
  assumes "s < length (heap st0)"
    and "BaseController (VRef s) st0 = (Inr (VRef c), st1)"
    and "c < length (heap st)"
    and "s < length (heap st)"
    and "attrs (heap st ! c) = attrs (heap st1 ! c)"
  shows "fst (send (invoke d ext) c m r st) =
        (case fst (invoke d ext (VRef s) ''send''
                     [m, case r of None \<Rightarrow> VBool False | Some x \<Rightarrow> x] st) of
           Inl e \<Rightarrow> Inl e | Inr _ \<Rightarrow> Inr VNone)
    \<and> fst (connect (invoke d ext) c st) =
        (case fst (invoke d ext (VRef s) ''connect'' [] st) of
           Inl e \<Rightarrow> Inl e | Inr _ \<Rightarrow> Inr VNone)
    \<and> fst (close (invoke d ext) c st) =
        (case fst (invoke d ext (VRef s) ''close'' [] st) of
           Inl e \<Rightarrow> Inl e | Inr _ \<Rightarrow> Inr VNone)
    \<and> fst (recv (invoke d ext) c st) = fst (invoke d ext (VRef s) ''recv'' [] st)
    \<and> fst (is_alive (invoke d ext) c st) = fst (invoke d ext (VRef s) ''is_alive'' [] st)
    \<and> get_socket c st = (Inr (VRef s), st)
    \<and> (kind (heap st ! s) = Instance cls \<and> cls \<noteq> ''BaseController'' \<longrightarrow>
        fst (send (invoke d ext) c m r st) =
          (case fst (ext (Method s ''send''
                       [m, case r of None \<Rightarrow> VBool False | Some x \<Rightarrow> x]) (heap st)) of
             Inl e \<Rightarrow> Inl e | Inr _ \<Rightarrow> Inr VNone)
      \<and> fst (connect (invoke d ext) c st) =
          (case fst (ext (Method s ''connect'' []) (heap st)) of
             Inl e \<Rightarrow> Inl e | Inr _ \<Rightarrow> Inr VNone)
      \<and> fst (close (invoke d ext) c st) =
          (case fst (ext (Method s ''close'' []) (heap st)) of
             Inl e \<Rightarrow> Inl e | Inr _ \<Rightarrow> Inr VNone)
      \<and> fst (recv (invoke d ext) c st) = fst (ext (Method s ''recv'' []) (heap st))
      \<and> fst (is_alive (invoke d ext) c st) = fst (ext (Method s ''is_alive'' []) (heap st)))"
proof -
  note own = constructed_owns [OF assms(1,2,3,5)]
  note via = send_via [OF own, of "invoke d ext" m r] recv_via [OF own, of "invoke d ext"]
    is_alive_via [OF own, of "invoke d ext"] connect_via [OF own, of "invoke d ext"]
    close_via [OF own, of "invoke d ext"]
  have general: "fst (send (invoke d ext) c m r st) =
        (case fst (invoke d ext (VRef s) ''send''
                     [m, case r of None \<Rightarrow> VBool False | Some x \<Rightarrow> x] st) of
           Inl e \<Rightarrow> Inl e | Inr _ \<Rightarrow> Inr VNone)
    \<and> fst (connect (invoke d ext) c st) =
        (case fst (invoke d ext (VRef s) ''connect'' [] st) of
           Inl e \<Rightarrow> Inl e | Inr _ \<Rightarrow> Inr VNone)
    \<and> fst (close (invoke d ext) c st) =
        (case fst (invoke d ext (VRef s) ''close'' [] st) of
           Inl e \<Rightarrow> Inl e | Inr _ \<Rightarrow> Inr VNone)
    \<and> fst (recv (invoke d ext) c st) = fst (invoke d ext (VRef s) ''recv'' [] st)
    \<and> fst (is_alive (invoke d ext) c st) = fst (invoke d ext (VRef s) ''is_alive'' [] st)"
    unfolding via statement_fst by simp
  have gs: "get_socket c st = (Inr (VRef s), st)"
    by (rule get_socket_via [OF own])
  have outside: "fst (send (invoke d ext) c m r st) =
          (case fst (ext (Method s ''send''
                       [m, case r of None \<Rightarrow> VBool False | Some x \<Rightarrow> x]) (heap st)) of
             Inl e \<Rightarrow> Inl e | Inr _ \<Rightarrow> Inr VNone)
      \<and> fst (connect (invoke d ext) c st) =
          (case fst (ext (Method s ''connect'' []) (heap st)) of
             Inl e \<Rightarrow> Inl e | Inr _ \<Rightarrow> Inr VNone)
      \<and> fst (close (invoke d ext) c st) =
          (case fst (ext (Method s ''close'' []) (heap st)) of
             Inl e \<Rightarrow> Inl e | Inr _ \<Rightarrow> Inr VNone)
      \<and> fst (recv (invoke d ext) c st) = fst (ext (Method s ''recv'' []) (heap st))
      \<and> fst (is_alive (invoke d ext) c st) = fst (ext (Method s ''is_alive'' []) (heap st))"
    if k: "kind (heap st ! s) = Instance cls" "cls \<noteq> ''BaseController''"
    unfolding via statement_fst invoke_external [OF assms(4) k] external_fst by simp
  show ?thesis
    using general gs outside by blast
qed

text \<open>
  C9 at the concrete scenario, where every method of the socket returns 7: the three
  statements return \<^verbatim>\<open>None\<close>, the two \<^verbatim>\<open>return\<close>s return 7.
\<close>

theorem return_values_witness:
  "fst (send (invoke 1000 example_ext) 1 (VStr ''SIGNAL NEWNYM'') None example_built) = Inr VNone
   \<and> fst (connect (invoke 1000 example_ext) 1 example_built) = Inr VNone
   \<and> fst (close (invoke 1000 example_ext) 1 example_built) = Inr VNone
   \<and> fst (recv (invoke 1000 example_ext) 1 example_built) = Inr (VInt 7)
   \<and> fst (is_alive (invoke 1000 example_ext) 1 example_built) = Inr (VInt 7)
   \<and> get_socket 1 example_built = (Inr (VRef 0), example_built)"
proof -
  have s: "0 < length (heap example_state)" by simp
  have c: "1 < length (heap example_built)" by simp
  have s': "0 < length (heap example_built)" by simp
  have k: "kind (heap example_built ! 0) = Instance ''stem.socket.ControlPort''
      \<and> ''stem.socket.ControlPort'' \<noteq> ''BaseController''"
    by simp
  show ?thesis
    using return_values [OF s example_construction c s' refl,
        where d = 1000 and ext = example_ext and m = "VStr ''SIGNAL NEWNYM''" and r = None
          and cls = "''stem.socket.ControlPort''"] k
    by (simp add: invoke_external [where cls = "''stem.socket.ControlPort''"]
        external_def statement_def)
qed

text \<open>
  C9 as stated fails for \<^verbatim>\<open>get_socket\<close>: there is no delegated call whose value it
  could return. On the controller at address 1 it returns the reference to the socket at
  address 0 and logs nothing, whereas a call of \<^verbatim>\<open>get_socket\<close> on that socket would be
  logged and, at the transport of the scenario, produce 7.
\<close>

theorem get_socket_value_is_no_call_result:
  "BaseController (VRef 0) example_state = (Inr (VRef 1), example_built)
   \<and> get_socket 1 example_built = (Inr (VRef 0), example_built)
   \<and> invoke 1000 example_ext (VRef 0) ''get_socket'' [] example_built
       = (Inr (VInt 7),
          \<lparr>heap = heap example_built,
           log = log example_built @ [Ext (Method 0 ''get_socket'' [])]\<rparr>)
   \<and> fst (get_socket 1 example_built)
       \<noteq> fst (invoke 1000 example_ext (VRef 0) ''get_socket'' [] example_built)"
  by (simp add: example_construction get_socket_def
      invoke_external [where cls = "''stem.socket.ControlPort''"] external_def)

text \<open>
  C10. Let \<open>c1\<close> be constructed over \<open>s\<close>, and let a second controller \<open>c2\<close> be
  constructed over the same \<open>s\<close> in a later state (the store has not shrunk and the
  object \<open>c1\<close> is as its construction left it). Then \<open>c2\<close> is another object, the object
  \<open>c1\<close> is untouched and its \<^verbatim>\<open>_socket\<close> still refers to \<open>s\<close>; the \<^verbatim>\<open>_get_self\<close> of
  \<open>s\<close>, which returned \<open>c1\<close> after the first construction, has been assigned again by
  the second and now returns \<open>c2\<close>, not \<open>c1\<close>.
\<close>

theorem second_controller_repoints:
  assumes "s < length (heap st0)"
    and "BaseController (VRef s) st0 = (Inr (VRef c1), st1)"
    and "length (heap st1) \<le> length (heap st)"
    and "heap st ! c1 = heap st1 ! c1"
    and "BaseController (VRef s) st = (Inr (VRef c2), st2)"
  shows "c1 \<noteq> c2
    \<and> heap st2 ! c1 = heap st1 ! c1
    \<and> attrs (heap st2 ! c1) ''_socket'' = Some (VRef s)
    \<and> get_socket c1 st2 = (Inr (VRef s), st2)
    \<and> (\<exists>f1. attrs (heap st1 ! s) ''_get_self'' = Some (VRef f1)
            \<and> call0 d ext (VRef f1) st1 = (Inr (VRef c1), st1))
    \<and> (\<exists>f2. attrs (heap st2 ! s) ''_get_self'' = Some (VRef f2)
            \<and> call0 d ext (VRef f2) st2 = (Inr (VRef c2), st2)
            \<and> fst (call0 d ext (VRef f2) st2) \<noteq> Inr (VRef c1)
            \<and> log st2 = log st @
                 [Write c2 ''_socket'' (VRef s), Write s ''_get_self'' (VRef f2)])"
proof -
  have c1: "c1 = length (heap st0)"
    by (rule BaseController_address [OF assms(2)])
  have len1: "length (heap st1) = length (heap st0) + 2"
    by (rule BaseController_length [OF assms(2)])
  have s: "s < length (heap st)"
    using assms(1,3) len1 by simp
  have c2: "c2 = length (heap st)"
    by (rule BaseController_address [OF assms(5)])
  have apart: "c1 \<noteq> c2"
    using c1 c2 len1 assms(3) by simp
  have s_c1: "s \<noteq> c1"
    using assms(1) c1 by simp
  have c1_st: "c1 < length (heap st)"
    using c1 len1 assms(3) by simp
  have kept: "heap st2 ! c1 = heap st ! c1"
    using assms(5) s s_c1 c1_st by (auto simp add: BaseController_result nth_append)
  have sock: "attrs (heap st1 ! c1) = [''_socket'' \<mapsto> VRef s]"
    by (rule constructed_socket [OF assms(1,2)])
  have len2: "length (heap st2) = length (heap st) + 2"
    by (rule BaseController_length [OF assms(5)])
  have "heap st2 ! c1 = heap st1 ! c1"
    using kept assms(4) by simp
  moreover have field: "attrs (heap st2 ! c1) ''_socket'' = Some (VRef s)"
    using kept assms(4) sock by simp
  moreover have "get_socket c1 st2 = (Inr (VRef s), st2)"
    using field c1_st len2 by (simp add: get_socket_def)
  moreover have "\<exists>f1. attrs (heap st1 ! s) ''_get_self'' = Some (VRef f1)
            \<and> call0 d ext (VRef f1) st1 = (Inr (VRef c1), st1)"
    using constructed_back_reference [OF assms(1,2)] by blast
  moreover have "\<exists>f2. attrs (heap st2 ! s) ''_get_self'' = Some (VRef f2)
            \<and> call0 d ext (VRef f2) st2 = (Inr (VRef c2), st2)
            \<and> fst (call0 d ext (VRef f2) st2) \<noteq> Inr (VRef c1)
            \<and> log st2 = log st @
                 [Write c2 ''_socket'' (VRef s), Write s ''_get_self'' (VRef f2)]"
    using constructed_back_reference [OF s assms(5)] apart by auto
  ultimately show ?thesis
    using apart by blast
qed

text \<open>
  C10 at the concrete scenario: the second controller over the socket at address 0 is at
  address 3, its closure at address 4.
\<close>

theorem second_controller_repoints_witness:
  "fst (BaseController (VRef 0) example_built) = Inr (VRef 3)
   \<and> attrs (heap (snd (BaseController (VRef 0) example_built)) ! 1) ''_socket'' = Some (VRef 0)
   \<and> attrs (heap example_built ! 0) ''_get_self'' = Some (VRef 2)
   \<and> call0 1000 example_ext (VRef 2) example_built = (Inr (VRef 1), example_built)
   \<and> attrs (heap (snd (BaseController (VRef 0) example_built)) ! 0) ''_get_self'' = Some (VRef 4)
   \<and> call0 1000 example_ext (VRef 4) (snd (BaseController (VRef 0) example_built))
       = (Inr (VRef 3), snd (BaseController (VRef 0) example_built))"
proof -
  have s: "0 < length (heap example_state)" by simp
  have second: "BaseController (VRef 0) example_built
      = (Inr (VRef 3), snd (BaseController (VRef 0) example_built))"
    by (simp add: BaseController_result)
  show ?thesis
    using second_controller_repoints [OF s example_construction order_refl refl second,
        where d = 1000 and ext = example_ext]
    by (simp add: BaseController_result provide_self_def)
qed

end
